theory Spec2Isabelle
  imports Main "HOL-Library.Sublist"
begin

section \<open>The completion chunks handed over by libclang\<close>

text \<open>
  \<^verbatim>\<open>CompletionData.cpp\<close> reads one completion candidate through the accessor
  functions of libclang. The chunk kinds are the enumerators of
  \<^verbatim>\<open>CXCompletionChunkKind\<close> that \<^verbatim>\<open>clang-c/Index.h\<close> declares; an object of a
  C enumeration type can also hold an integer that is none of the enumerators, which
  is the last constructor.
\<close>

datatype CXCompletionChunkKind =
    CXCompletionChunk_Optional
  | CXCompletionChunk_TypedText
  | CXCompletionChunk_Text
  | CXCompletionChunk_Placeholder
  | CXCompletionChunk_Informative
  | CXCompletionChunk_CurrentParameter
  | CXCompletionChunk_LeftParen
  | CXCompletionChunk_RightParen
  | CXCompletionChunk_LeftBracket
  | CXCompletionChunk_RightBracket
  | CXCompletionChunk_LeftBrace
  | CXCompletionChunk_RightBrace
  | CXCompletionChunk_LeftAngle
  | CXCompletionChunk_RightAngle
  | CXCompletionChunk_Comma
  | CXCompletionChunk_ResultType
  | CXCompletionChunk_Colon
  | CXCompletionChunk_SemiColon
  | CXCompletionChunk_Equal
  | CXCompletionChunk_HorizontalSpace
  | CXCompletionChunk_VerticalSpace
  | CXCompletionChunk_OutOfRange nat

text \<open>
  A \<^verbatim>\<open>CXCompletionString\<close> is a pointer: null, or the address of a completion
  string, which has an ordered sequence of chunks and a brief documentation comment.
  A chunk has a kind, a text and, for an optional chunk, a completion string of its own
  (null when the engine supplies none). A \<^verbatim>\<open>std::string\<close> is a sequence of bytes, so
  every text is a \<^typ>\<open>string\<close>, a list of 8-bit characters.
\<close>

datatype CXCompletionString =
    NULL
  | CompletionString "CXCompletionChunk list" string
and CXCompletionChunk =
    Chunk CXCompletionChunkKind string CXCompletionString

fun chunk_kind :: "CXCompletionChunk \<Rightarrow> CXCompletionChunkKind" where
  "chunk_kind (Chunk k t n) = k"

fun chunk_text :: "CXCompletionChunk \<Rightarrow> string" where
  "chunk_text (Chunk k t n) = t"

fun chunk_completion_string :: "CXCompletionChunk \<Rightarrow> CXCompletionString" where
  "chunk_completion_string (Chunk k t n) = n"

fun chunks_of :: "CXCompletionString \<Rightarrow> CXCompletionChunk list" where
  "chunks_of NULL = []"
| "chunks_of (CompletionString cs b) = cs"

text \<open>
  The accessors of libclang, as \<^verbatim>\<open>clang-c/Index.h\<close> documents them. On a null
  completion string or a chunk number that is out of range they return zero chunks,
  the kind \<^verbatim>\<open>CXCompletionChunk_Text\<close>, a null text and a null completion string.
\<close>

definition clang_getNumCompletionChunks :: "CXCompletionString \<Rightarrow> nat" where
  "clang_getNumCompletionChunks completion_string = length (chunks_of completion_string)"

definition clang_getCompletionChunkKind :: "CXCompletionString \<Rightarrow> nat \<Rightarrow> CXCompletionChunkKind" where
  "clang_getCompletionChunkKind completion_string chunk_number =
     (if chunk_number < length (chunks_of completion_string)
      then chunk_kind (chunks_of completion_string ! chunk_number)
      else CXCompletionChunk_Text)"

definition clang_getCompletionChunkText :: "CXCompletionString \<Rightarrow> nat \<Rightarrow> string" where
  "clang_getCompletionChunkText completion_string chunk_number =
     (if chunk_number < length (chunks_of completion_string)
      then chunk_text (chunks_of completion_string ! chunk_number)
      else [])"

definition clang_getCompletionChunkCompletionString ::
    "CXCompletionString \<Rightarrow> nat \<Rightarrow> CXCompletionString" where
  "clang_getCompletionChunkCompletionString completion_string chunk_number =
     (if chunk_number < length (chunks_of completion_string)
      then chunk_completion_string (chunks_of completion_string ! chunk_number)
      else NULL)"

fun clang_getCompletionBriefComment :: "CXCompletionString \<Rightarrow> string" where
  "clang_getCompletionBriefComment NULL = []"
| "clang_getCompletionBriefComment (CompletionString cs b) = b"

text \<open>
  Modelled from the spec: \<^verbatim>\<open>CXStringToString\<close> of \<^verbatim>\<open>ClangUtils.h\<close> is not among the
  sources. The spec takes the chunk text and the brief comment as plain strings (a
  leaf text that may be empty, a comment that is possibly empty), so the conversion
  returns the bytes it is given.
\<close>

definition CXStringToString :: "string \<Rightarrow> string" where
  "CXStringToString s = s"

text \<open>
  The cursor kinds that \<^verbatim>\<open>CursorKindToCompletionKind\<close> names; every other
  enumerator of \<^verbatim>\<open>CXCursorKind\<close> is \<open>CXCursor_Other\<close> with its number.
\<close>

datatype CXCursorKind =
    CXCursor_StructDecl
  | CXCursor_ClassDecl
  | CXCursor_ClassTemplate
  | CXCursor_EnumDecl
  | CXCursor_UnexposedDecl
  | CXCursor_UnionDecl
  | CXCursor_TypedefDecl
  | CXCursor_FieldDecl
  | CXCursor_FunctionDecl
  | CXCursor_CXXMethod
  | CXCursor_FunctionTemplate
  | CXCursor_ConversionFunction
  | CXCursor_Constructor
  | CXCursor_Destructor
  | CXCursor_VarDecl
  | CXCursor_MacroDefinition
  | CXCursor_ParmDecl
  | CXCursor_Namespace
  | CXCursor_NamespaceAlias
  | CXCursor_Other nat

text \<open>
  The two members of \<^verbatim>\<open>CXCompletionResult\<close>; the member \<^verbatim>\<open>CompletionString\<close> is
  \<open>CompletionString_of\<close> here, \<open>CompletionString\<close> being the constructor above.
\<close>

record CXCompletionResult =
  CursorKind :: CXCursorKind
  CompletionString_of :: CXCompletionString

section \<open>CompletionData.h\<close>

text \<open>
  The enumerators of \<^verbatim>\<open>CompletionKind\<close>; \<^verbatim>\<open>TYPE\<close> is written \<open>TYPE_kind\<close>, since
  \<open>TYPE\<close> is a reserved word of the logic's syntax.
\<close>

datatype CompletionKind =
    STRUCT
  | CLASS
  | ENUM
  | TYPE_kind
  | MEMBER
  | FUNCTION
  | VARIABLE
  | MACRO
  | PARAMETER
  | NAMESPACE
  | UNKNOWN

record CompletionData =
  completion_kind :: CompletionKind
  everything_except_return_type :: string
  doc_string :: string
  call_string :: string
  key_string :: string
  brief :: string
  detailed_info :: string
  return_type :: string

text \<open>
  The members keep their names without the trailing underscore, which Isabelle reserves;
  \<^verbatim>\<open>kind_\<close> is \<open>completion_kind\<close>, since \<open>kind\<close> is the name of a local variable
  in four functions of \<^verbatim>\<open>CompletionData.cpp\<close>.
\<close>

text \<open>
  The default constructor \<^verbatim>\<open>CompletionData() {}\<close> and the member initialisation of the
  other constructor: every \<^verbatim>\<open>std::string\<close> member starts empty, and \<^verbatim>\<open>kind_\<close>, which
  has no initialiser, starts with whatever value \<open>indeterminate\<close> the storage holds.
\<close>

definition CompletionData_default :: "CompletionKind \<Rightarrow> CompletionData" where
  "CompletionData_default indeterminate =
     \<lparr> completion_kind = indeterminate,
       everything_except_return_type = [],
       doc_string = [],
       call_string = [],
       key_string = [],
       brief = [],
       detailed_info = [],
       return_type = [] \<rparr>"

definition TextToInsertInBuffer :: "CompletionData \<Rightarrow> string" where
  "TextToInsertInBuffer this = call_string this"

definition MainCompletionText :: "CompletionData \<Rightarrow> string" where
  "MainCompletionText this = everything_except_return_type this"

definition ExtraMenuInfo :: "CompletionData \<Rightarrow> string" where
  "ExtraMenuInfo this = return_type this"

definition DetailedInfoForPreviewWindow :: "CompletionData \<Rightarrow> string" where
  "DetailedInfoForPreviewWindow this = detailed_info this"

definition DocString :: "CompletionData \<Rightarrow> string" where
  "DocString this = doc_string this"

definition Brief :: "CompletionData \<Rightarrow> string" where
  "Brief this = brief this"

text \<open>\<^verbatim>\<open>operator==\<close> of the header.\<close>

definition operator_eq :: "CompletionData \<Rightarrow> CompletionData \<Rightarrow> bool" where
  "operator_eq this other \<longleftrightarrow>
     completion_kind this = completion_kind other \<and>
     everything_except_return_type this = everything_except_return_type other \<and>
     return_type this = return_type other"

text \<open>
  The static member \<^verbatim>\<open>extra_space_\<close> is process-wide state. It is passed to every
  function that reads it; the two setters return its new value, and the definition in
  \<^verbatim>\<open>CompletionData.cpp\<close> gives its initial value.
\<close>

definition extra_space_initial :: string where
  "extra_space_initial = []"

definition EnableExtraSpace :: "string \<Rightarrow> string" where
  "EnableExtraSpace extra_space = '' ''"

definition DisableExtraSpace :: "string \<Rightarrow> string" where
  "DisableExtraSpace extra_space = []"

definition AppendExtraSpaceIfNeeded :: "string \<Rightarrow> CompletionData \<Rightarrow> CompletionData" where
  "AppendExtraSpaceIfNeeded extra_space this =
     (let this = this\<lparr> call_string := call_string this @ extra_space \<rparr>
      in this\<lparr> everything_except_return_type :=
                  everything_except_return_type this @ extra_space \<rparr>)"

section \<open>CompletionData.cpp\<close>

fun CursorKindToCompletionKind :: "CXCursorKind \<Rightarrow> CompletionKind" where
  "CursorKindToCompletionKind CXCursor_StructDecl = STRUCT"
| "CursorKindToCompletionKind CXCursor_ClassDecl = CLASS"
| "CursorKindToCompletionKind CXCursor_ClassTemplate = CLASS"
| "CursorKindToCompletionKind CXCursor_EnumDecl = ENUM"
| "CursorKindToCompletionKind CXCursor_UnexposedDecl = TYPE_kind"
| "CursorKindToCompletionKind CXCursor_UnionDecl = TYPE_kind"
| "CursorKindToCompletionKind CXCursor_TypedefDecl = TYPE_kind"
| "CursorKindToCompletionKind CXCursor_FieldDecl = MEMBER"
| "CursorKindToCompletionKind CXCursor_FunctionDecl = FUNCTION"
| "CursorKindToCompletionKind CXCursor_CXXMethod = FUNCTION"
| "CursorKindToCompletionKind CXCursor_FunctionTemplate = FUNCTION"
| "CursorKindToCompletionKind CXCursor_ConversionFunction = FUNCTION"
| "CursorKindToCompletionKind CXCursor_Constructor = FUNCTION"
| "CursorKindToCompletionKind CXCursor_Destructor = FUNCTION"
| "CursorKindToCompletionKind CXCursor_VarDecl = VARIABLE"
| "CursorKindToCompletionKind CXCursor_MacroDefinition = MACRO"
| "CursorKindToCompletionKind CXCursor_ParmDecl = PARAMETER"
| "CursorKindToCompletionKind CXCursor_Namespace = NAMESPACE"
| "CursorKindToCompletionKind CXCursor_NamespaceAlias = NAMESPACE"
| "CursorKindToCompletionKind (CXCursor_Other n) = UNKNOWN"

definition IsMainCompletionTextInfo :: "CXCompletionChunkKind \<Rightarrow> bool" where
  "IsMainCompletionTextInfo kind \<longleftrightarrow>
     kind = CXCompletionChunk_Optional \<or>
     kind = CXCompletionChunk_TypedText \<or>
     kind = CXCompletionChunk_Placeholder \<or>
     kind = CXCompletionChunk_LeftParen \<or>
     kind = CXCompletionChunk_RightParen \<or>
     kind = CXCompletionChunk_RightBracket \<or>
     kind = CXCompletionChunk_LeftBracket \<or>
     kind = CXCompletionChunk_LeftBrace \<or>
     kind = CXCompletionChunk_RightBrace \<or>
     kind = CXCompletionChunk_RightAngle \<or>
     kind = CXCompletionChunk_LeftAngle \<or>
     kind = CXCompletionChunk_Comma \<or>
     kind = CXCompletionChunk_Colon \<or>
     kind = CXCompletionChunk_SemiColon \<or>
     kind = CXCompletionChunk_Equal \<or>
     kind = CXCompletionChunk_Informative \<or>
     kind = CXCompletionChunk_HorizontalSpace"

text \<open>
  The four placeholder delimiters are written in UTF-8 in the source: U+27EA and U+27EB
  (mathematical double angle brackets) and U+27E6 and U+27E7 (mathematical white square
  brackets), three bytes each.
\<close>

definition ldelim_top :: string where
  "ldelim_top = [CHR 0xE2, CHR 0x9F, CHR 0xAA]"

definition rdelim_top :: string where
  "rdelim_top = [CHR 0xE2, CHR 0x9F, CHR 0xAB]"

definition ldelim_opt :: string where
  "ldelim_opt = [CHR 0xE2, CHR 0x9F, CHR 0xA6]"

definition rdelim_opt :: string where
  "rdelim_opt = [CHR 0xE2, CHR 0x9F, CHR 0xA7]"

definition ChunkToString :: "CXCompletionString \<Rightarrow> nat \<Rightarrow> string \<Rightarrow> string \<Rightarrow> string" where
  "ChunkToString completion_string chunk_num
       opening_placeholder_delimiter closing_placeholder_delimiter =
     (if completion_string = NULL then []
      else
        let kind = clang_getCompletionChunkKind completion_string chunk_num;
            completion_text =
              CXStringToString (clang_getCompletionChunkText completion_string chunk_num)
        in if kind = CXCompletionChunk_Placeholder
           then opening_placeholder_delimiter @ completion_text @
                closing_placeholder_delimiter
           else completion_text)"

text \<open>The call with the default arguments of the declaration.\<close>

definition ChunkToString_default :: "CXCompletionString \<Rightarrow> nat \<Rightarrow> string" where
  "ChunkToString_default completion_string chunk_num =
     ChunkToString completion_string chunk_num ldelim_top rdelim_top"

function OptionalChunkToString :: "CXCompletionString \<Rightarrow> nat \<Rightarrow> string" where
  "OptionalChunkToString completion_string chunk_num =
     (if completion_string = NULL then []
      else
        let optional_completion_string =
              clang_getCompletionChunkCompletionString completion_string chunk_num
        in if optional_completion_string = NULL then []
           else
             fold (\<lambda>j final_string.
                     if clang_getCompletionChunkKind optional_completion_string j =
                          CXCompletionChunk_Optional
                     then final_string @ OptionalChunkToString optional_completion_string j
                     else final_string @
                          ChunkToString optional_completion_string j ldelim_opt rdelim_opt)
                  [0 ..< clang_getNumCompletionChunks optional_completion_string] [])"
  by pat_completeness auto
termination
proof (relation "measure (\<lambda>(completion_string, chunk_num). size completion_string)")
  show "wf (measure (\<lambda>(completion_string, chunk_num). size completion_string))"
    by simp
next
  fix completion_string :: CXCompletionString and chunk_num j :: nat
    and optional_completion_string :: CXCompletionString
  assume ocs: "optional_completion_string =
                 clang_getCompletionChunkCompletionString completion_string chunk_num"
    and nonnull: "optional_completion_string \<noteq> NULL"
  from ocs nonnull have inr: "chunk_num < length (chunks_of completion_string)"
    and nested: "optional_completion_string =
                   chunk_completion_string (chunks_of completion_string ! chunk_num)"
    by (auto simp: clang_getCompletionChunkCompletionString_def split: if_splits)
  obtain cs b where cs: "completion_string = CompletionString cs b"
    using inr by (cases completion_string) auto
  obtain k t where ch: "cs ! chunk_num = Chunk k t optional_completion_string"
    using nested cs by (cases "cs ! chunk_num") auto
  have "cs ! chunk_num \<in> set cs"
    using inr cs by simp
  then have "size (cs ! chunk_num) \<le> size_list size cs"
    by (simp add: size_list_estimation')
  then show "((optional_completion_string, j), (completion_string, chunk_num))
               \<in> measure (\<lambda>(completion_string, chunk_num). size completion_string)"
    using ch cs by simp
qed

declare OptionalChunkToString.simps [simp del]


text \<open>
  \<^verbatim>\<open>boost::erase_all(text, search)\<close> works on the bytes of \<open>text\<close>: it finds the
  first occurrence of \<open>search\<close>, erases it, and goes on with the bytes after that
  occurrence, in one pass from left to right. An empty \<open>search\<close> is never found.
\<close>

function erase_all :: "string \<Rightarrow> string \<Rightarrow> string" where
  "erase_all [] search = []"
| "erase_all (c # cs) search =
     (if search \<noteq> [] \<and> prefix search (c # cs)
      then erase_all (drop (length search) (c # cs)) search
      else c # erase_all cs search)"
  by pat_completeness auto
termination
  by (relation "measure (\<lambda>(input, search). length input)") auto

definition RemoveTwoConsecutiveUnderscores :: "string \<Rightarrow> string" where
  "RemoveTwoConsecutiveUnderscores text = erase_all text ''__''"

definition RemoveParameterMarkers :: "string \<Rightarrow> string" where
  "RemoveParameterMarkers text =
     (let text1 = erase_all text ldelim_top;
          text2 = erase_all text1 rdelim_top;
          text3 = erase_all text2 ldelim_opt;
          text4 = erase_all text3 rdelim_opt
      in text4)"

text \<open>
  \<^verbatim>\<open>cv_re\<close> is a regular expression in the Perl syntax of Boost.Regex, on bytes and
  in the "C" locale. It is the concatenation of five parts: any number of white space
  characters; the assertion that a word starts here; one of the words \<^verbatim>\<open>const\<close> and
  \<^verbatim>\<open>volatile\<close>; the assertion that a word ends here; any number of white space
  characters. A white space character is one of the six of ASCII, a word character is
  an ASCII letter, a digit or the underscore, a word starts where the character before
  (if any) is not a word character and the one after is, and a word ends where the
  character before is a word character and the one after (if any) is not.

  \<open>cv_re_match prev input\<close> is the length of the match of \<^verbatim>\<open>cv_re\<close> that starts
  at the first character of \<open>input\<close>, where \<open>prev\<close> is the character before it in
  the text that is searched (\<open>None\<close> at the start of the text). The expression has one
  way to match at a position: the white space is taken greedily, and giving some of it
  back leaves a white space character where the word must start.
\<close>

definition isspace :: "char \<Rightarrow> bool" where
  "isspace c \<longleftrightarrow>
     c = CHR 0x20 \<or> c = CHR 0x09 \<or> c = CHR 0x0A \<or> c = CHR 0x0B \<or> c = CHR 0x0C \<or>
     c = CHR 0x0D"

definition isword :: "char \<Rightarrow> bool" where
  "isword c \<longleftrightarrow>
     (let n = (of_char c :: nat)
      in (48 \<le> n \<and> n \<le> 57) \<or> (65 \<le> n \<and> n \<le> 90) \<or> (97 \<le> n \<and> n \<le> 122) \<or> n = 95)"

definition cv_re_match :: "char option \<Rightarrow> string \<Rightarrow> nat option" where
  "cv_re_match prev input =
     (let leading = takeWhile isspace input;
          rest = dropWhile isspace input;
          before = (if leading = [] then prev else Some (last leading));
          word = (if prefix ''const'' rest then ''const''
                  else if prefix ''volatile'' rest then ''volatile''
                  else []);
          after = drop (length word) rest
      in if word \<noteq> [] \<and>
            (case before of None \<Rightarrow> True | Some b \<Rightarrow> \<not> isword b) \<and>
            (case after of [] \<Rightarrow> True | a # as \<Rightarrow> \<not> isword a)
         then Some (length leading + length word + length (takeWhile isspace after))
         else None)"

text \<open>
  \<^verbatim>\<open>boost::regex_replace(text, cv_re, "")\<close>: every match of \<^verbatim>\<open>cv_re\<close> is found in the
  text as it is given, from left to right, each search starting where the match before
  ended, and the text between the matches is copied.
\<close>

function regex_replace_cv_re :: "char option \<Rightarrow> string \<Rightarrow> string" where
  "regex_replace_cv_re prev [] = []"
| "regex_replace_cv_re prev (c # cs) =
     (case cv_re_match prev (c # cs) of
        None \<Rightarrow> c # regex_replace_cv_re (Some c) cs
      | Some n \<Rightarrow> regex_replace_cv_re (Some ((c # cs) ! (n - 1))) (drop n (c # cs)))"
  by pat_completeness auto
termination
proof (relation "measure (\<lambda>(prev, input). length input)")
  show "wf (measure (\<lambda>(prev, input). length input))"
    by simp
next
  fix prev :: "char option" and c :: char and cs :: string
  show "((Some c, cs), (prev, c # cs)) \<in> measure (\<lambda>(prev, input). length input)"
    by simp
next
  fix prev :: "char option" and c :: char and cs :: string and n :: nat
  assume "cv_re_match prev (c # cs) = Some n"
  then have "0 < n"
    by (auto simp: cv_re_match_def Let_def split: if_splits)
  then show "((Some ((c # cs) ! (n - 1)), drop n (c # cs)), (prev, c # cs))
               \<in> measure (\<lambda>(prev, input). length input)"
    by simp
qed

definition regex_replace :: "string \<Rightarrow> string" where
  "regex_replace text = regex_replace_cv_re None text"

text \<open>
  \<^verbatim>\<open>ExtractDataFromChunk\<close> updates the object under construction and the two flags it
  has by reference; here it takes and returns the three of them.
\<close>

definition ExtractDataFromChunk ::
    "string \<Rightarrow> CXCompletionString \<Rightarrow> nat \<Rightarrow> CompletionData \<times> bool \<times> bool \<Rightarrow>
     CompletionData \<times> bool \<times> bool" where
  "ExtractDataFromChunk extra_space completion_string chunk_num state =
     (let (this, saw_left_paren, saw_function_params) = state;
          kind = clang_getCompletionChunkKind completion_string chunk_num;
          (this, saw_left_paren, saw_function_params) =
            (if IsMainCompletionTextInfo kind then
               let (this, saw_left_paren, saw_function_params) =
                     (if kind = CXCompletionChunk_LeftParen then
                        (this, True, saw_function_params)
                      else if saw_left_paren \<and>
                              \<not> saw_function_params \<and>
                              kind \<noteq> CXCompletionChunk_RightParen \<and>
                              kind \<noteq> CXCompletionChunk_Informative then
                        (AppendExtraSpaceIfNeeded extra_space this, saw_left_paren, True)
                      else if saw_function_params \<and> kind = CXCompletionChunk_RightParen then
                        (AppendExtraSpaceIfNeeded extra_space this, saw_left_paren,
                         saw_function_params)
                      else (this, saw_left_paren, saw_function_params))
               in if kind = CXCompletionChunk_Optional then
                    let chunk = OptionalChunkToString completion_string chunk_num;
                        this = this\<lparr> call_string := call_string this @ chunk \<rparr>;
                        this = this\<lparr> everything_except_return_type :=
                                      everything_except_return_type this @ chunk \<rparr>
                    in (this, saw_left_paren, saw_function_params)
                  else
                    let chunk = ChunkToString_default completion_string chunk_num;
                        this = (if kind \<noteq> CXCompletionChunk_Informative
                                then this\<lparr> call_string := call_string this @ chunk \<rparr>
                                else this);
                        this = this\<lparr> everything_except_return_type :=
                                      everything_except_return_type this @ chunk \<rparr>
                    in (this, saw_left_paren, saw_function_params)
             else (this, saw_left_paren, saw_function_params))
      in if kind = CXCompletionChunk_ResultType
         then (this\<lparr> return_type := ChunkToString_default completion_string chunk_num \<rparr>,
               saw_left_paren, saw_function_params)
         else (this, saw_left_paren, saw_function_params))"

text \<open>
  The constructor \<^verbatim>\<open>CompletionData( const CXCompletionResult & )\<close>. It reads the static
  \<^verbatim>\<open>extra_space_\<close>, and \<open>indeterminate\<close> is the value that the storage of \<^verbatim>\<open>kind_\<close>
  holds when the constructor starts.
\<close>

definition CompletionData_of ::
    "string \<Rightarrow> CompletionKind \<Rightarrow> CXCompletionResult \<Rightarrow> CompletionData" where
  "CompletionData_of extra_space indeterminate completion_result =
     (let this = CompletionData_default indeterminate;
          completion_string = CompletionString_of completion_result
      in if completion_string = NULL then this
         else
           let num_chunks = clang_getNumCompletionChunks completion_string;
               (this, saw_left_paren, saw_function_params) =
                 fold (ExtractDataFromChunk extra_space completion_string) [0 ..< num_chunks]
                   (this, False, False);
               this = this\<lparr> completion_kind :=
                             CursorKindToCompletionKind (CursorKind completion_result) \<rparr>;
               this = this\<lparr> everything_except_return_type :=
                             RemoveTwoConsecutiveUnderscores
                               (everything_except_return_type this) \<rparr>;
               this = this\<lparr> everything_except_return_type :=
                             RemoveParameterMarkers (everything_except_return_type this) \<rparr>;
               this = this\<lparr> call_string :=
                             RemoveTwoConsecutiveUnderscores (call_string this) \<rparr>;
               this = this\<lparr> key_string :=
                             regex_replace (RemoveParameterMarkers (call_string this)) \<rparr>;
               this = this\<lparr> brief :=
                             CXStringToString
                               (clang_getCompletionBriefComment completion_string) \<rparr>;
               this = (if brief this \<noteq> []
                       then this\<lparr> detailed_info :=
                                     detailed_info this @ brief this @ [CHR 0x0A] \<rparr>
                       else this);
               this = this\<lparr> detailed_info :=
                             detailed_info this @ return_type this @ '' '' @
                             everything_except_return_type this @ [CHR 0x0A] \<rparr>;
               this = this\<lparr> doc_string :=
                             CXStringToString
                               (clang_getCompletionBriefComment completion_string) \<rparr>
           in this)"

section \<open>Definitions for the statements\<close>

text \<open>
  The rendering of one chunk as the specification words it (\<open>RenderChunk\<close>): a
  placeholder is wrapped in the two delimiters, every other chunk is its text.
\<close>

fun RenderChunk :: "CXCompletionChunk \<Rightarrow> string \<Rightarrow> string \<Rightarrow> string" where
  "RenderChunk (Chunk k t n) openDelim closeDelim =
     (if k = CXCompletionChunk_Placeholder then openDelim @ t @ closeDelim else t)"

text \<open>
  The chunks below a completion string that are not optional chunks themselves, at any
  depth and in the order of the text: an optional chunk stands for the chunks of its own
  completion string.
\<close>

fun leaves_of :: "CXCompletionString \<Rightarrow> CXCompletionChunk list"
  and leaves_of_chunk :: "CXCompletionChunk \<Rightarrow> CXCompletionChunk list" where
  "leaves_of NULL = []"
| "leaves_of (CompletionString cs b) = concat (map leaves_of_chunk cs)"
| "leaves_of_chunk (Chunk k t n) =
     (if k = CXCompletionChunk_Optional then leaves_of n else [Chunk k t n])"

text \<open>
  \<open>chunk_step\<close> is \<^verbatim>\<open>ExtractDataFromChunk\<close> on a chunk rather than on a chunk number:
  the call on the completion string that has this chunk alone.
\<close>

definition chunk_step ::
    "string \<Rightarrow> CXCompletionChunk \<Rightarrow> CompletionData \<times> bool \<times> bool \<Rightarrow>
     CompletionData \<times> bool \<times> bool" where
  "chunk_step extra_space c = ExtractDataFromChunk extra_space (CompletionString [c] []) 0"

text \<open>
  The object after the loop of the constructor and before its normalisation passes.
\<close>

definition scanned :: "string \<Rightarrow> CompletionKind \<Rightarrow> CXCompletionChunk list \<Rightarrow> CompletionData" where
  "scanned extra_space indeterminate cs =
     fst (fold (chunk_step extra_space) cs (CompletionData_default indeterminate, False, False))"

text \<open>
  \<open>spaced\<close>: the chunk is one before which \<^verbatim>\<open>AppendExtraSpaceIfNeeded\<close> is called, given
  the two flags. \<open>rendered\<close>: the text that a chunk of the top level contributes.
\<close>

definition spaced :: "CXCompletionChunkKind \<Rightarrow> bool \<Rightarrow> bool \<Rightarrow> bool" where
  "spaced k saw_left_paren saw_function_params \<longleftrightarrow>
     k \<noteq> CXCompletionChunk_LeftParen \<and>
     (saw_left_paren \<and> \<not> saw_function_params \<and> k \<noteq> CXCompletionChunk_RightParen \<and>
        k \<noteq> CXCompletionChunk_Informative \<or>
      saw_function_params \<and> k = CXCompletionChunk_RightParen)"

definition rendered :: "CXCompletionChunk \<Rightarrow> string" where
  "rendered c =
     (if chunk_kind c = CXCompletionChunk_Optional
      then concat (map (\<lambda>d. RenderChunk d ldelim_opt rdelim_opt)
             (leaves_of (chunk_completion_string c)))
      else RenderChunk c ldelim_top rdelim_top)"

text \<open>The chunk sequences of the examples.\<close>

definition foo_int_x :: "CXCompletionChunk list" where
  "foo_int_x =
     [Chunk CXCompletionChunk_TypedText ''foo'' NULL,
      Chunk CXCompletionChunk_LeftParen ''('' NULL,
      Chunk CXCompletionChunk_TypedText ''int x'' NULL,
      Chunk CXCompletionChunk_RightParen '')'' NULL]"

definition foo_no_params :: "CXCompletionChunk list" where
  "foo_no_params =
     [Chunk CXCompletionChunk_TypedText ''foo'' NULL,
      Chunk CXCompletionChunk_LeftParen ''('' NULL,
      Chunk CXCompletionChunk_RightParen '')'' NULL]"

text \<open>More chunk sequences of the examples and counterexamples.\<close>

definition int_foo :: "CXCompletionChunk list" where
  "int_foo =
     [Chunk CXCompletionChunk_ResultType ''int'' NULL,
      Chunk CXCompletionChunk_TypedText ''foo'' NULL]"

definition foo_missing_optional :: "CXCompletionChunk list" where
  "foo_missing_optional =
     [Chunk CXCompletionChunk_TypedText ''foo'' NULL,
      Chunk CXCompletionChunk_LeftParen ''('' NULL,
      Chunk CXCompletionChunk_Optional [] NULL,
      Chunk CXCompletionChunk_RightParen '')'' NULL]"

definition optional_informative :: "CXCompletionChunk list" where
  "optional_informative =
     [Chunk CXCompletionChunk_Optional []
        (CompletionString [Chunk CXCompletionChunk_Informative ''x'' NULL] [])]"

definition nested_placeholders :: "CXCompletionChunk list" where
  "nested_placeholders =
     [Chunk CXCompletionChunk_Placeholder ''a'' NULL,
      Chunk CXCompletionChunk_Optional []
        (CompletionString
           [Chunk CXCompletionChunk_Placeholder ''b'' NULL,
            Chunk CXCompletionChunk_Optional []
              (CompletionString [Chunk CXCompletionChunk_Placeholder ''c'' NULL] [])] [])]"

text \<open>
  Well-formed UTF-8, structurally: a byte below 128 stands alone, and a lead byte from
  192 is followed by as many continuation bytes (128 to 191) as it announces, one, two
  or three. Overlong forms and surrogates are not excluded, so \<open>utf8_wf\<close> holds of
  every valid UTF-8 text and of some more. \<open>is_char\<close> is one such character, \<open>chars\<close> a
  list of them, and \<open>char_seq\<close> a byte sequence that is the concatenation of such a list.
\<close>

definition is_cont :: "char \<Rightarrow> bool" where
  "is_cont c \<longleftrightarrow> 128 \<le> (of_char c :: nat) \<and> (of_char c :: nat) < 192"

definition utf8_len :: "char \<Rightarrow> nat" where
  "utf8_len c =
     (let n = (of_char c :: nat)
      in if n < 128 then 1
         else if 192 \<le> n \<and> n < 224 then 2
         else if 224 \<le> n \<and> n < 240 then 3
         else if 240 \<le> n \<and> n < 248 then 4
         else 0)"

fun utf8_wf :: "string \<Rightarrow> bool" where
  "utf8_wf [] = True"
| "utf8_wf (c # cs) =
     (0 < utf8_len c \<and> utf8_len c - 1 \<le> length cs \<and>
      list_all is_cont (take (utf8_len c - 1) cs) \<and>
      utf8_wf (drop (utf8_len c - 1) cs))"

definition is_char :: "string \<Rightarrow> bool" where
  "is_char t \<longleftrightarrow>
     (case t of [] \<Rightarrow> False | c # cs \<Rightarrow> utf8_len c = Suc (length cs) \<and> list_all is_cont cs)"

definition chars :: "string list \<Rightarrow> bool" where
  "chars ts \<longleftrightarrow> list_all is_char ts"

text \<open>The texts of all the chunks of a completion string, at any depth.\<close>

fun texts_of :: "CXCompletionString \<Rightarrow> string list"
  and texts_of_chunk :: "CXCompletionChunk \<Rightarrow> string list" where
  "texts_of NULL = []"
| "texts_of (CompletionString cs b) = concat (map texts_of_chunk cs)"
| "texts_of_chunk (Chunk k t n) = t # texts_of n"

definition char_seq :: "string \<Rightarrow> bool" where
  "char_seq s \<longleftrightarrow> (\<exists>ts. chars ts \<and> concat ts = s)"

text \<open>The four placeholder markers.\<close>

definition markers :: "string set" where
  "markers = {ldelim_top, rdelim_top, ldelim_opt, rdelim_opt}"

definition byte_soup :: "CXCompletionChunk list" where
  "byte_soup =
     [Chunk CXCompletionChunk_TypedText
        [CHR 0xE2, CHR 0x9F, CHR 0xE2, CHR 0x9F, CHR 0xAB, CHR 0xAA] NULL]"







text \<open>
  The two flags of the loop of the constructor after the chunks \<open>cs\<close>: whether a left
  parenthesis was seen, and whether a parameter of the function was.
\<close>

definition flags_after :: "string \<Rightarrow> CompletionKind \<Rightarrow> CXCompletionChunk list \<Rightarrow> bool \<times> bool" where
  "flags_after extra_space indeterminate cs =
     snd (fold (chunk_step extra_space) cs (CompletionData_default indeterminate, False, False))"

text \<open>
  \<open>without_missing_optional m m'\<close>: the completion string \<open>m'\<close> is \<open>m\<close> without one
  Optional chunk that has no completion string, taken out of \<open>m\<close> itself or out of the
  completion string of an Optional chunk of \<open>m\<close>, at any depth.
\<close>

inductive without_missing_optional :: "CXCompletionString \<Rightarrow> CXCompletionString \<Rightarrow> bool" where
  here: "without_missing_optional
           (CompletionString (Chunk CXCompletionChunk_Optional t NULL # post) b)
           (CompletionString post b)"
| below: "without_missing_optional n n' \<Longrightarrow>
          without_missing_optional
            (CompletionString (Chunk CXCompletionChunk_Optional t n # post) b)
            (CompletionString (Chunk CXCompletionChunk_Optional t n' # post) b)"
| later: "without_missing_optional (CompletionString cs b) (CompletionString cs' b) \<Longrightarrow>
          without_missing_optional (CompletionString (c # cs) b) (CompletionString (c # cs') b)"

code_pred without_missing_optional .

text \<open>
  Chunk sequences with an Optional chunk whose completion string holds one chunk of the
  kind 99, and with an Optional chunk whose completion string is empty.
\<close>

definition optional_unknown_kind :: "CXCompletionChunk list" where
  "optional_unknown_kind =
     [Chunk CXCompletionChunk_Optional []
        (CompletionString [Chunk (CXCompletionChunk_OutOfRange 99) ''x'' NULL] [])]"

definition optional_nothing :: "CXCompletionChunk list" where
  "optional_nothing =
     [Chunk CXCompletionChunk_Optional [] (CompletionString [] [])]"

text \<open>
  \<^verbatim>\<open>StripQualifiers\<close> as the specification describes it, written without the regular
  expression. The text is cut into its runs: the maximal runs of word characters, the
  maximal runs of white space, and every other character alone. A run that is the word
  const or the word volatile is a qualifier. Every qualifier is deleted, with the white
  space directly before it and the white space directly after it; the flag of
  \<open>strip_qualifiers\<close> says that the run before was a qualifier. The runs are those of
  the text as it is given: what the deletions join is not looked at again.
\<close>

definition is_qualifier :: "string \<Rightarrow> bool" where
  "is_qualifier w \<longleftrightarrow> w = ''const'' \<or> w = ''volatile''"

function runs :: "string \<Rightarrow> string list" where
  "runs [] = []"
| "runs (c # cs) =
     (if isword c then (c # takeWhile isword cs) # runs (dropWhile isword cs)
      else if isspace c then (c # takeWhile isspace cs) # runs (dropWhile isspace cs)
      else [c] # runs cs)"
  by pat_completeness auto
termination
  by (relation "measure length") (auto simp: le_imp_less_Suc length_dropWhile_le)






section \<open>Lemmas\<close>

subsection \<open>The loops over chunk numbers, chunk by chunk\<close>

lemma fold_upt_nth:
  assumes "\<And>j. j < length xs \<Longrightarrow> f j = g (xs ! j)"
  shows "fold f [0 ..< length xs] s = fold g xs s"
  using assms
proof (induction xs arbitrary: s rule: rev_induct)
  case Nil
  then show ?case by simp
next
  case (snoc x xs)
  have "\<And>j. j < length xs \<Longrightarrow> f j = g (xs ! j)"
    using snoc.prems [of j for j] by (simp add: nth_append)
  then have "fold f [0 ..< length xs] s = fold g xs s"
    by (rule snoc.IH)
  moreover have "f (length xs) = g x"
    using snoc.prems [of "length xs"] by simp
  ultimately show ?case by simp
qed

lemma fold_append_pieces:
  "fold (\<lambda>x acc. acc @ h x) xs s = s @ concat (map h xs)"
  by (induction xs arbitrary: s) simp_all

lemma concat_map_concat:
  "concat (map (\<lambda>x. concat (f x)) xs) = concat (concat (map f xs))"
  by (induction xs) simp_all

lemma ChunkToString_nth:
  assumes "j < length cs"
  shows "ChunkToString (CompletionString cs b) j od cd = RenderChunk (cs ! j) od cd"
  using assms
  by (cases "cs ! j")
     (simp add: ChunkToString_def clang_getCompletionChunkKind_def
        clang_getCompletionChunkText_def CXStringToString_def)

lemma OptionalChunkToString_leaves:
  "OptionalChunkToString completion_string chunk_num =
     concat (map (\<lambda>c. RenderChunk c ldelim_opt rdelim_opt)
       (leaves_of (clang_getCompletionChunkCompletionString completion_string chunk_num)))"
proof (induction completion_string chunk_num rule: OptionalChunkToString.induct)
  case (1 completion_string chunk_num)
  let ?ocs = "clang_getCompletionChunkCompletionString completion_string chunk_num"
  let ?r = "\<lambda>c. RenderChunk c ldelim_opt rdelim_opt"
  show ?case
  proof (cases "completion_string = NULL \<or> ?ocs = NULL")
    case True
    then show ?thesis
      by (auto simp: OptionalChunkToString.simps [of completion_string chunk_num]
            clang_getCompletionChunkCompletionString_def)
  next
    case False
    then obtain xs b where ocs: "?ocs = CompletionString xs b"
      by (cases ?ocs) auto
    have piece: "(if clang_getCompletionChunkKind ?ocs j = CXCompletionChunk_Optional
                 then OptionalChunkToString ?ocs j
                 else ChunkToString ?ocs j ldelim_opt rdelim_opt) =
                concat (map ?r (leaves_of_chunk (xs ! j)))" if j: "j < length xs" for j
    proof (cases "clang_getCompletionChunkKind ?ocs j = CXCompletionChunk_Optional")
      case opt: True
      have "j \<in> set [0 ..< clang_getNumCompletionChunks ?ocs]"
        using j ocs by (simp add: clang_getNumCompletionChunks_def)
      with "1.IH" [OF _ refl _ _ opt] False
      have "OptionalChunkToString ?ocs j =
              concat (map ?r (leaves_of (clang_getCompletionChunkCompletionString ?ocs j)))"
        by simp
      then show ?thesis
        using opt j ocs
        by (cases "xs ! j")
           (simp add: clang_getCompletionChunkKind_def
              clang_getCompletionChunkCompletionString_def)
    next
      case nopt: False
      then show ?thesis
        using j ocs
        by (cases "xs ! j")
           (simp add: ChunkToString_nth clang_getCompletionChunkKind_def)
    qed
    have "OptionalChunkToString completion_string chunk_num =
            fold (\<lambda>j final_string. final_string @
                    (if clang_getCompletionChunkKind ?ocs j = CXCompletionChunk_Optional
                     then OptionalChunkToString ?ocs j
                     else ChunkToString ?ocs j ldelim_opt rdelim_opt))
              [0 ..< length xs] []"
      using False ocs
      by (subst OptionalChunkToString.simps)
         (auto simp: clang_getNumCompletionChunks_def Let_def intro!: fold_cong)
    also have "\<dots> = fold (\<lambda>c acc. acc @ concat (map ?r (leaves_of_chunk c))) xs []"
      by (rule fold_upt_nth) (simp add: piece)
    also have "\<dots> = concat (map ?r (leaves_of ?ocs))"
      by (simp add: fold_append_pieces ocs map_concat comp_def concat_map_concat)
    finally show ?thesis .
  qed
qed

lemma ExtractDataFromChunk_nth:
  assumes "j < length cs"
  shows "ExtractDataFromChunk es (CompletionString cs b) j = chunk_step es (cs ! j)"
proof -
  have k: "clang_getCompletionChunkKind (CompletionString cs b) j =
           clang_getCompletionChunkKind (CompletionString [cs ! j] []) 0"
    using assms by (simp add: clang_getCompletionChunkKind_def)
  have t: "ChunkToString_default (CompletionString cs b) j =
           ChunkToString_default (CompletionString [cs ! j] []) 0"
    using assms by (simp add: ChunkToString_default_def ChunkToString_nth)
  have n: "OptionalChunkToString (CompletionString cs b) j =
           OptionalChunkToString (CompletionString [cs ! j] []) 0"
    using assms
    by (simp add: OptionalChunkToString_leaves clang_getCompletionChunkCompletionString_def)
  show ?thesis
    unfolding chunk_step_def ExtractDataFromChunk_def k t n ..
qed

subsection \<open>One step of the scan\<close>

lemma IsMain_not_ResultType:
  "IsMainCompletionTextInfo k \<Longrightarrow> k \<noteq> CXCompletionChunk_ResultType"
  by (auto simp: IsMainCompletionTextInfo_def)

lemma chunk_step_unfold:
  "chunk_step es (Chunk k t n) (this, slp, sfp) =
     (let (this, saw_left_paren, saw_function_params) =
            (if IsMainCompletionTextInfo k then
               let (this, saw_left_paren, saw_function_params) =
                     (if k = CXCompletionChunk_LeftParen then (this, True, sfp)
                      else if slp \<and> \<not> sfp \<and> k \<noteq> CXCompletionChunk_RightParen \<and>
                              k \<noteq> CXCompletionChunk_Informative then
                        (AppendExtraSpaceIfNeeded es this, slp, True)
                      else if sfp \<and> k = CXCompletionChunk_RightParen then
                        (AppendExtraSpaceIfNeeded es this, slp, sfp)
                      else (this, slp, sfp))
               in if k = CXCompletionChunk_Optional then
                    (this\<lparr> call_string := call_string this @ rendered (Chunk k t n),
                           everything_except_return_type :=
                             everything_except_return_type this @ rendered (Chunk k t n) \<rparr>,
                     saw_left_paren, saw_function_params)
                  else
                    ((if k \<noteq> CXCompletionChunk_Informative
                      then this\<lparr> call_string := call_string this @ rendered (Chunk k t n) \<rparr>
                      else this)
                     \<lparr> everything_except_return_type :=
                         everything_except_return_type
                           (if k \<noteq> CXCompletionChunk_Informative
                            then this\<lparr> call_string := call_string this @ rendered (Chunk k t n) \<rparr>
                            else this) @ rendered (Chunk k t n) \<rparr>,
                     saw_left_paren, saw_function_params)
             else (this, slp, sfp))
      in if k = CXCompletionChunk_ResultType
         then (this\<lparr> return_type := t \<rparr>, saw_left_paren, saw_function_params)
         else (this, saw_left_paren, saw_function_params))"
proof -
  have k: "clang_getCompletionChunkKind (CompletionString [Chunk k t n] []) 0 = k"
    by (simp add: clang_getCompletionChunkKind_def)
  have r: "ChunkToString_default (CompletionString [Chunk k t n] []) 0 =
           RenderChunk (Chunk k t n) ldelim_top rdelim_top"
    by (simp add: ChunkToString_default_def ChunkToString_nth)
  have "ChunkToString_default (CompletionString [Chunk k t n] []) 0 = t"
    if "k = CXCompletionChunk_ResultType"
    using that r by simp
  moreover have "ChunkToString_default (CompletionString [Chunk k t n] []) 0 =
           rendered (Chunk k t n)" if "k \<noteq> CXCompletionChunk_Optional"
    using that r by (simp add: rendered_def)
  moreover have "OptionalChunkToString (CompletionString [Chunk k t n] []) 0 =
           rendered (Chunk k t n)" if "k = CXCompletionChunk_Optional"
    using that
    by (simp add: OptionalChunkToString_leaves rendered_def
          clang_getCompletionChunkCompletionString_def)
  ultimately show ?thesis
    unfolding chunk_step_def ExtractDataFromChunk_def k Let_def prod.case
    by (simp cong: if_cong)
qed

lemma chunk_step_display:
  assumes "IsMainCompletionTextInfo k"
  shows "chunk_step es (Chunk k t n) (this, slp, sfp) =
     (this\<lparr> call_string := call_string this @
                (if spaced k slp sfp then es else []) @
                (if k = CXCompletionChunk_Informative then [] else rendered (Chunk k t n)),
             everything_except_return_type := everything_except_return_type this @
                (if spaced k slp sfp then es else []) @ rendered (Chunk k t n) \<rparr>,
      slp \<or> k = CXCompletionChunk_LeftParen,
      sfp \<or> (k \<noteq> CXCompletionChunk_LeftParen \<and> slp \<and> k \<noteq> CXCompletionChunk_RightParen \<and>
             k \<noteq> CXCompletionChunk_Informative))"
proof -
  note nr = IsMain_not_ResultType [OF assms]
  consider (lp) "k = CXCompletionChunk_LeftParen"
    | (rp) "k = CXCompletionChunk_RightParen"
    | (inf) "k = CXCompletionChunk_Informative"
    | (opt) "k = CXCompletionChunk_Optional"
    | (other) "k \<noteq> CXCompletionChunk_LeftParen" "k \<noteq> CXCompletionChunk_RightParen"
        "k \<noteq> CXCompletionChunk_Informative" "k \<noteq> CXCompletionChunk_Optional"
    by blast
  then show ?thesis
  proof cases
    case lp
    then show ?thesis
      using assms by (auto simp: chunk_step_unfold spaced_def)
  next
    case rp
    then show ?thesis
      using assms by (auto simp: chunk_step_unfold spaced_def AppendExtraSpaceIfNeeded_def)
  next
    case inf
    then show ?thesis
      using assms by (auto simp: chunk_step_unfold spaced_def)
  next
    case opt
    then show ?thesis
      using assms by (auto simp: chunk_step_unfold spaced_def AppendExtraSpaceIfNeeded_def)
  next
    case other
    then show ?thesis
      using assms nr by (auto simp: chunk_step_unfold spaced_def AppendExtraSpaceIfNeeded_def)
  qed
qed

lemma chunk_step_result_type:
  "chunk_step es (Chunk CXCompletionChunk_ResultType t n) (this, slp, sfp) =
     (this\<lparr> return_type := t \<rparr>, slp, sfp)"
  by (simp add: chunk_step_unfold IsMainCompletionTextInfo_def)

lemma chunk_step_ignored:
  assumes "\<not> IsMainCompletionTextInfo k" and "k \<noteq> CXCompletionChunk_ResultType"
  shows "chunk_step es (Chunk k t n) s = s"
  using assms by (cases s) (simp add: chunk_step_unfold)

lemma fold_ExtractDataFromChunk:
  "fold (ExtractDataFromChunk es (CompletionString cs b))
     [0 ..< clang_getNumCompletionChunks (CompletionString cs b)] s =
   fold (chunk_step es) cs s"
  unfolding clang_getNumCompletionChunks_def chunks_of.simps
  by (rule fold_upt_nth) (simp add: ExtractDataFromChunk_nth)

subsection \<open>The constructor in terms of the scan\<close>

lemma chunk_step_frame:
  "completion_kind (fst (chunk_step es c s)) = completion_kind (fst s) \<and>
   doc_string (fst (chunk_step es c s)) = doc_string (fst s) \<and>
   key_string (fst (chunk_step es c s)) = key_string (fst s) \<and>
   brief (fst (chunk_step es c s)) = brief (fst s) \<and>
   detailed_info (fst (chunk_step es c s)) = detailed_info (fst s)"
proof -
  obtain k t n where c: "c = Chunk k t n" by (cases c)
  obtain this slp sfp where s: "s = (this, slp, sfp)" by (cases s)
  consider "IsMainCompletionTextInfo k" | "k = CXCompletionChunk_ResultType"
    | "\<not> IsMainCompletionTextInfo k" "k \<noteq> CXCompletionChunk_ResultType"
    by blast
  then show ?thesis
  proof cases
    case 1
    then show ?thesis unfolding c s by (simp add: chunk_step_display)
  next
    case 2
    then show ?thesis unfolding c s by (simp add: chunk_step_result_type)
  next
    case 3
    then show ?thesis unfolding c s by (simp add: chunk_step_ignored)
  qed
qed

lemma scan_frame:
  "completion_kind (fst (fold (chunk_step es) cs s)) = completion_kind (fst s) \<and>
   doc_string (fst (fold (chunk_step es) cs s)) = doc_string (fst s) \<and>
   key_string (fst (fold (chunk_step es) cs s)) = key_string (fst s) \<and>
   brief (fst (fold (chunk_step es) cs s)) = brief (fst s) \<and>
   detailed_info (fst (fold (chunk_step es) cs s)) = detailed_info (fst s)"
proof (induction cs arbitrary: s)
  case Nil
  show ?case by simp
next
  case (Cons c cs)
  show ?case
    using Cons.IH [of "chunk_step es c s"] chunk_step_frame [of es c s] by simp
qed

lemma CompletionData_of_NULL:
  "CompletionData_of es ind \<lparr> CursorKind = ck, CompletionString_of = NULL \<rparr> =
     CompletionData_default ind"
  by (simp add: CompletionData_of_def)

lemma CompletionData_of_scanned:
  "CompletionData_of es ind \<lparr> CursorKind = ck, CompletionString_of = CompletionString cs b \<rparr> =
     \<lparr> completion_kind = CursorKindToCompletionKind ck,
       everything_except_return_type =
         RemoveParameterMarkers (RemoveTwoConsecutiveUnderscores
           (everything_except_return_type (scanned es ind cs))),
       doc_string = b,
       call_string = RemoveTwoConsecutiveUnderscores (call_string (scanned es ind cs)),
       key_string =
         regex_replace (RemoveParameterMarkers
           (RemoveTwoConsecutiveUnderscores (call_string (scanned es ind cs)))),
       brief = b,
       detailed_info =
         (if b \<noteq> [] then b @ [CHR 0x0A] else []) @
         return_type (scanned es ind cs) @ '' '' @
         RemoveParameterMarkers (RemoveTwoConsecutiveUnderscores
           (everything_except_return_type (scanned es ind cs))) @ [CHR 0x0A],
       return_type = return_type (scanned es ind cs) \<rparr>"
proof -
  obtain this slp sfp where f:
    "fold (chunk_step es) cs (CompletionData_default ind, False, False) = (this, slp, sfp)"
    by (cases "fold (chunk_step es) cs (CompletionData_default ind, False, False)")
  have sc: "scanned es ind cs = this"
    by (simp add: scanned_def f)
  have "detailed_info this = []"
    using scan_frame [of es cs "(CompletionData_default ind, False, False)"]
    unfolding f by (simp add: CompletionData_default_def)
  then show ?thesis
    unfolding sc
    by (simp add: CompletionData_of_def fold_ExtractDataFromChunk f Let_def
          CXStringToString_def)
qed

lemma regex_replace_Nil: "regex_replace [] = []"
  by (simp add: regex_replace_def)

subsection \<open>What a step reads and what it leaves alone\<close>

lemma fold_rel:
  assumes "\<And>c s s'. R s s' \<Longrightarrow> R (f c s) (f c s')" and "R s s'"
  shows "R (fold f cs s) (fold f cs s')"
  using assms(2) by (induction cs arbitrary: s s') (simp_all add: assms(1))

lemma fold_filter_rel:
  assumes "\<And>c s s'. R s s' \<Longrightarrow> R (f c s) (f c s')"
    and "\<And>c s s'. \<not> P c \<Longrightarrow> R s s' \<Longrightarrow> R (f c s) s'"
    and "R s s'"
  shows "R (fold f cs s) (fold f (filter P cs) s')"
  using assms(3) by (induction cs arbitrary: s s') (simp_all add: assms(1,2))

lemma chunk_step_cases [case_names display result_type ignored]:
  assumes "\<And>k t n. c = Chunk k t n \<Longrightarrow> IsMainCompletionTextInfo k \<Longrightarrow> Q"
    and "\<And>t n. c = Chunk CXCompletionChunk_ResultType t n \<Longrightarrow> Q"
    and "\<And>k t n. c = Chunk k t n \<Longrightarrow> \<not> IsMainCompletionTextInfo k \<Longrightarrow>
           k \<noteq> CXCompletionChunk_ResultType \<Longrightarrow> Q"
  shows Q
  using assms by (cases c) blast

text \<open>
  The two accumulators and the flags after a step depend on the accumulators and the
  flags before it only; without the extra space, the object does not depend on the flags.
\<close>

lemma chunk_step_accumulators:
  assumes "call_string (fst s) = call_string (fst s')"
    and "everything_except_return_type (fst s) = everything_except_return_type (fst s')"
    and "snd s = snd s'"
  shows "call_string (fst (chunk_step es c s)) = call_string (fst (chunk_step es c s')) \<and>
         everything_except_return_type (fst (chunk_step es c s)) =
           everything_except_return_type (fst (chunk_step es c s')) \<and>
         snd (chunk_step es c s) = snd (chunk_step es c s')"
proof -
  obtain this slp sfp where s: "s = (this, slp, sfp)" by (cases s)
  obtain this' where s': "s' = (this', slp, sfp)" using assms(3) s by (cases s') auto
  show ?thesis
    using assms(1,2) unfolding s s'
    by (cases c rule: chunk_step_cases)
       (simp_all add: chunk_step_display chunk_step_result_type chunk_step_ignored)
qed

lemma chunk_step_call_string:
  assumes "call_string (fst s) = call_string (fst s')" and "snd s = snd s'"
  shows "call_string (fst (chunk_step es c s)) = call_string (fst (chunk_step es c s')) \<and>
         snd (chunk_step es c s) = snd (chunk_step es c s')"
proof -
  obtain this slp sfp where s: "s = (this, slp, sfp)" by (cases s)
  obtain this' where s': "s' = (this', slp, sfp)" using assms(2) s by (cases s') auto
  show ?thesis
    using assms(1) unfolding s s'
    by (cases c rule: chunk_step_cases)
       (simp_all add: chunk_step_display chunk_step_result_type chunk_step_ignored)
qed

lemma chunk_step_no_space:
  assumes "fst s = fst s'"
  shows "fst (chunk_step [] c s) = fst (chunk_step [] c s')"
proof -
  obtain this slp sfp where s: "s = (this, slp, sfp)" by (cases s)
  obtain slp' sfp' where s': "s' = (this, slp', sfp')" using assms s by (cases s') auto
  show ?thesis
    unfolding s s'
    by (cases c rule: chunk_step_cases)
       (simp_all add: chunk_step_display chunk_step_result_type chunk_step_ignored)
qed

lemma chunk_step_return_type:
  assumes "chunk_kind c \<noteq> CXCompletionChunk_ResultType"
  shows "return_type (fst (chunk_step es c s)) = return_type (fst s)"
proof -
  obtain this slp sfp where s: "s = (this, slp, sfp)" by (cases s)
  show ?thesis
    using assms unfolding s
    by (cases c rule: chunk_step_cases)
       (simp_all add: chunk_step_display chunk_step_ignored)
qed

subsection \<open>Removing chunks from a sequence\<close>

lemma ExtractDataFromChunk_at:
  "ExtractDataFromChunk es (CompletionString (pre @ c # post) b) (length pre) = chunk_step es c"
  by (simp add: ExtractDataFromChunk_nth)

lemma scanned_remove_result_type:
  "call_string (scanned es ind (pre @ Chunk CXCompletionChunk_ResultType t n # post)) =
     call_string (scanned es ind (pre @ post)) \<and>
   everything_except_return_type
       (scanned es ind (pre @ Chunk CXCompletionChunk_ResultType t n # post)) =
     everything_except_return_type (scanned es ind (pre @ post))"
proof -
  let ?R = "\<lambda>s s'. call_string (fst s) = call_string (fst s') \<and>
              everything_except_return_type (fst s) = everything_except_return_type (fst s') \<and>
              snd s = snd s'"
  let ?s = "fold (chunk_step es) pre (CompletionData_default ind, False, False)"
  have "?R (chunk_step es (Chunk CXCompletionChunk_ResultType t n) ?s) ?s"
    by (cases ?s) (simp add: chunk_step_result_type)
  then have "?R (fold (chunk_step es) post (chunk_step es (Chunk CXCompletionChunk_ResultType t n) ?s))
               (fold (chunk_step es) post ?s)"
    by (rule fold_rel [where R = ?R, rotated]) (rule chunk_step_accumulators, simp_all)
  then show ?thesis
    by (simp add: scanned_def)
qed

lemma fold_return_type:
  "return_type (fst (fold (chunk_step es)
       (filter (\<lambda>c. chunk_kind c \<noteq> CXCompletionChunk_ResultType) cs) s)) = return_type (fst s)"
  by (induction cs arbitrary: s) (simp_all add: chunk_step_return_type)

lemma scanned_last_result_type:
  "return_type (scanned es ind (pre @ Chunk CXCompletionChunk_ResultType t n #
       filter (\<lambda>c. chunk_kind c \<noteq> CXCompletionChunk_ResultType) post)) = t"
proof -
  let ?s = "fold (chunk_step es) pre (CompletionData_default ind, False, False)"
  have "return_type (fst (chunk_step es (Chunk CXCompletionChunk_ResultType t n) ?s)) = t"
    by (cases ?s) (simp add: chunk_step_result_type)
  then show ?thesis
    by (simp add: scanned_def fold_return_type)
qed

lemma scanned_remove_ignored:
  assumes "\<not> IsMainCompletionTextInfo k" and "k \<noteq> CXCompletionChunk_ResultType"
  shows "scanned es ind (pre @ Chunk k t n # post) = scanned es ind (pre @ post)"
  using assms by (simp add: scanned_def chunk_step_ignored)

lemma rendered_missing_optional:
  "rendered (Chunk CXCompletionChunk_Optional t NULL) = []"
  by (simp add: rendered_def)

lemma rendered_empty_optional:
  "rendered (Chunk CXCompletionChunk_Optional t (CompletionString [] b)) = []"
  by (simp add: rendered_def)

lemma chunk_step_missing_optional:
  "chunk_step es (Chunk CXCompletionChunk_Optional t NULL) s =
   chunk_step es (Chunk CXCompletionChunk_Optional t' (CompletionString [] b)) s"
  by (cases s)
     (simp add: chunk_step_display IsMainCompletionTextInfo_def rendered_missing_optional
        rendered_empty_optional)

lemma scanned_remove_missing_optional:
  "scanned [] ind (pre @ Chunk CXCompletionChunk_Optional t NULL # post) =
   scanned [] ind (pre @ post)"
proof -
  let ?s = "fold (chunk_step []) pre (CompletionData_default ind, False, False)"
  have "fst (chunk_step [] (Chunk CXCompletionChunk_Optional t NULL) ?s) = fst ?s"
    by (cases ?s)
       (simp add: chunk_step_display IsMainCompletionTextInfo_def rendered_missing_optional)
  then have "fst (fold (chunk_step []) post
                (chunk_step [] (Chunk CXCompletionChunk_Optional t NULL) ?s)) =
             fst (fold (chunk_step []) post ?s)"
    by (rule fold_rel [where R = "\<lambda>s s'. fst s = fst s'", rotated])
       (rule chunk_step_no_space)
  then show ?thesis
    by (simp add: scanned_def)
qed

lemma scanned_filter_informative:
  "call_string (scanned es ind cs) =
   call_string (scanned es ind (filter (\<lambda>c. chunk_kind c \<noteq> CXCompletionChunk_Informative) cs))"
proof -
  let ?R = "\<lambda>(s :: CompletionData \<times> bool \<times> bool) (s' :: CompletionData \<times> bool \<times> bool).
              call_string (fst s) = call_string (fst s') \<and> snd s = snd s'"
  let ?s = "(CompletionData_default ind, False, False)"
  have "?R (fold (chunk_step es) cs ?s)
           (fold (chunk_step es)
              (filter (\<lambda>c. chunk_kind c \<noteq> CXCompletionChunk_Informative) cs) ?s)"
  proof (rule fold_filter_rel [where R = ?R])
    fix c s s'
    assume "?R s s'"
    then show "?R (chunk_step es c s) (chunk_step es c s')"
      using chunk_step_call_string [of s s' es c] by simp
  next
    fix c s s'
    assume inf: "\<not> chunk_kind c \<noteq> CXCompletionChunk_Informative" and R: "?R s s'"
    obtain t n where c: "c = Chunk CXCompletionChunk_Informative t n"
      using inf by (cases c) simp
    obtain this slp sfp where s: "s = (this, slp, sfp)" by (cases s)
    have "chunk_step es c s =
            (this\<lparr> everything_except_return_type :=
                      everything_except_return_type this @ t \<rparr>, slp, sfp)"
      unfolding c s
      by (simp add: chunk_step_display IsMainCompletionTextInfo_def spaced_def rendered_def)
    then show "?R (chunk_step es c s) s'"
      using R by (simp add: s)
  qed simp
  then show ?thesis
    by (simp add: scanned_def)
qed

subsection \<open>Erasing on sequences of UTF-8 characters\<close>

lemma utf8_wf_chars:
  "utf8_wf s \<Longrightarrow> \<exists>ts. chars ts \<and> concat ts = s"
proof (induction s rule: utf8_wf.induct)
  case 1
  have "chars [] \<and> concat [] = ([] :: string)" by (simp add: chars_def)
  then show ?case by blast
next
  case (2 c cs)
  let ?k = "utf8_len c - 1"
  from "2.prems" have len: "0 < utf8_len c" and le: "?k \<le> length cs"
    and conts: "list_all is_cont (take ?k cs)" and rest: "utf8_wf (drop ?k cs)"
    by simp_all
  from "2.IH" rest obtain ts where ts: "chars ts" "concat ts = drop ?k cs"
    by blast
  have "is_char (c # take ?k cs)"
    using len le conts by (simp add: is_char_def)
  then have "chars ((c # take ?k cs) # ts)"
    using ts(1) by (simp add: chars_def)
  moreover have "concat ((c # take ?k cs) # ts) = c # cs"
    using ts(2) by simp
  ultimately show ?case by blast
qed

lemma is_char_cases:
  assumes "is_char t"
  obtains (ascii) c where "t = [c]" "(of_char c :: nat) < 128"
    | (multi) c cs where "t = c # cs" "192 \<le> (of_char c :: nat)" "list_all is_cont cs"
        "utf8_len c = Suc (length cs)"
proof -
  from assms obtain c cs where t: "t = c # cs" and len: "utf8_len c = Suc (length cs)"
    and conts: "list_all is_cont cs"
    by (auto simp: is_char_def split: list.splits)
  show thesis
  proof (cases "(of_char c :: nat) < 128")
    case True
    then have "cs = []" using len by (simp add: utf8_len_def)
    then show thesis using True t ascii by simp
  next
    case False
    then have "192 \<le> (of_char c :: nat)"
      using len by (simp add: utf8_len_def Let_def split: if_splits)
    then show thesis using multi t conts len by simp
  qed
qed

lemma erase_all_skip:
  assumes "search \<noteq> []" and "\<forall>c\<in>set cs. c \<noteq> hd search"
  shows "erase_all (cs @ r) search = cs @ erase_all r search"
  using assms(2)
proof (induction cs)
  case Nil
  show ?case by simp
next
  case (Cons c cs)
  have "\<not> prefix search (c # cs @ r)"
    using Cons.prems assms(1) by (cases search) auto
  then show ?case using Cons by simp
qed

lemma erase_all_char:
  assumes "is_char m" and "is_char t"
  shows "erase_all (t @ r) m = (if t = m then [] else t) @ erase_all r m"
proof (cases "t = m")
  case True
  have "m \<noteq> []" using assms(1) by (auto simp: is_char_def)
  then show ?thesis
    using True by (cases m) simp_all
next
  case False
  from assms(1) obtain mc ms where m: "m = mc # ms" and mlen: "utf8_len mc = Suc (length ms)"
    by (auto simp: is_char_def split: list.splits)
  from assms(2) obtain c cs where t: "t = c # cs" and tlen: "utf8_len c = Suc (length cs)"
    and conts: "list_all is_cont cs"
    by (auto simp: is_char_def split: list.splits)
  have lead: "\<not> is_cont mc"
    using mlen by (auto simp: utf8_len_def is_cont_def Let_def split: if_splits)
  have "\<not> prefix m (t @ r)"
  proof
    assume p: "prefix m (t @ r)"
    then have "mc = c" using m t by simp
    then have "length ms = length cs" using mlen tlen by simp
    then have "m = t" using p m t by (auto simp: prefix_def)
    then show False using False by simp
  qed
  then have "erase_all (t @ r) m = c # erase_all (cs @ r) m"
    using t by simp
  also have "erase_all (cs @ r) m = cs @ erase_all r m"
  proof (rule erase_all_skip)
    show "m \<noteq> []" using m by simp
    show "\<forall>c\<in>set cs. c \<noteq> hd m"
      using conts lead m by (auto simp: list_all_iff)
  qed
  finally show ?thesis using False t by simp
qed

lemma erase_all_chars:
  assumes "is_char m" and "chars ts"
  shows "erase_all (concat ts) m = concat (filter (\<lambda>t. t \<noteq> m) ts)"
  using assms(2)
  by (induction ts) (simp_all add: chars_def erase_all_char [OF assms(1)])

lemma length_erase_all: "length (erase_all s m) \<le> length s"
proof (induction s m rule: erase_all.induct)
  case (1 search)
  show ?case by simp
next
  case (2 c cs search)
  then show ?case by (auto simp: le_SucI)
qed

lemma erase_all_sublist:
  assumes "m \<noteq> []" and "sublist m s"
  shows "length (erase_all s m) < length s"
  using assms(2)
proof (induction s)
  case Nil
  then show ?case using assms(1) by simp
next
  case (Cons c cs)
  show ?case
  proof (cases "prefix m (c # cs)")
    case True
    have "length (erase_all (drop (length m) (c # cs)) m) \<le> length (drop (length m) (c # cs))"
      by (rule length_erase_all)
    also have "\<dots> < length (c # cs)"
      using assms(1) by simp
    finally show ?thesis using True assms(1) by simp
  next
    case False
    then have "sublist m cs"
      using Cons.prems by (simp add: sublist_Cons_right)
    then show ?thesis using False Cons.IH by simp
  qed
qed

lemma no_sublist_chars:
  assumes "is_char m" and "chars ts" and "m \<notin> set ts"
  shows "\<not> sublist m (concat ts)"
proof
  assume "sublist m (concat ts)"
  moreover have "m \<noteq> []" using assms(1) by (auto simp: is_char_def)
  ultimately have "length (erase_all (concat ts) m) < length (concat ts)"
    by (simp add: erase_all_sublist)
  moreover have "filter (\<lambda>t. t \<noteq> m) ts = ts"
    using assms(3) by (induction ts) auto
  ultimately show False
    using erase_all_chars [OF assms(1,2)] by simp
qed

lemma char_seq_Nil: "char_seq []"
  unfolding char_seq_def chars_def by (rule exI [of _ "[]"]) simp

lemma char_seq_append:
  assumes "char_seq a" and "char_seq b"
  shows "char_seq (a @ b)"
proof -
  from assms obtain ta tb where "chars ta" "concat ta = a" "chars tb" "concat tb = b"
    unfolding char_seq_def by blast
  then have "chars (ta @ tb) \<and> concat (ta @ tb) = a @ b"
    by (simp add: chars_def)
  then show ?thesis unfolding char_seq_def by blast
qed

lemma char_seq_concat:
  assumes "\<forall>x\<in>set xs. char_seq x"
  shows "char_seq (concat xs)"
  using assms by (induction xs) (simp_all add: char_seq_Nil char_seq_append)

lemma utf8_wf_char_seq: "utf8_wf s \<Longrightarrow> char_seq s"
  unfolding char_seq_def by (rule utf8_wf_chars)

lemma is_char_markers: "m \<in> markers \<Longrightarrow> is_char m"
  by (auto simp: markers_def ldelim_top_def rdelim_top_def ldelim_opt_def rdelim_opt_def
        is_char_def utf8_len_def is_cont_def)

lemma char_seq_markers: "m \<in> markers \<Longrightarrow> char_seq m"
proof -
  assume "m \<in> markers"
  then have "chars [m] \<and> concat [m] = m"
    by (simp add: chars_def is_char_markers)
  then show ?thesis unfolding char_seq_def by blast
qed

lemma chars_filter: "chars ts \<Longrightarrow> chars (filter P ts)"
  by (simp add: chars_def list_all_iff)

lemma is_char_not_underscore:
  assumes "is_char t" and "t \<noteq> ''_''"
  shows "\<forall>c\<in>set t. c \<noteq> CHR ''_''"
  using assms(1)
proof (cases rule: is_char_cases)
  case (ascii c)
  then show ?thesis using assms(2) by auto
next
  case (multi c cs)
  have "\<forall>d\<in>set cs. d \<noteq> CHR ''_''"
    using multi(3) by (auto simp: list_all_iff is_cont_def)
  moreover have "c \<noteq> CHR ''_''"
    using multi(2) by auto
  ultimately show ?thesis using multi(1) by simp
qed

lemma erase_underscores_other:
  assumes "is_char t" and "t \<noteq> ''_''"
  shows "erase_all (t @ r) ''__'' = t @ erase_all r ''__''"
  by (rule erase_all_skip) (use is_char_not_underscore [OF assms] in simp_all)

lemma erase_underscores_chars:
  "chars ts \<Longrightarrow> \<exists>ts'. chars ts' \<and> concat ts' = erase_all (concat ts) ''__''"
proof (induction ts rule: induct_list012)
  case 1
  have "chars [] \<and> concat [] = erase_all (concat []) ''__''"
    by (simp add: chars_def)
  then show ?case by blast
next
  case (2 x)
  then have x: "is_char x" by (simp add: chars_def)
  have "erase_all x ''__'' = x"
  proof (cases "x = ''_''")
    case True
    then show ?thesis by simp
  next
    case False
    then show ?thesis
      using erase_underscores_other [OF x False, of "[]"] by simp
  qed
  then have "chars [x] \<and> concat [x] = erase_all (concat [x]) ''__''"
    using x by (simp add: chars_def)
  then show ?case by blast
next
  case (3 x y zs)
  from "3.prems" have x: "is_char x" and y: "is_char y" and yzs: "chars (y # zs)"
    and zs: "chars zs"
    by (simp_all add: chars_def)
  from "3.IH"(1) zs obtain t0 where t0: "chars t0" "concat t0 = erase_all (concat zs) ''__''"
    by blast
  from "3.IH"(2) yzs obtain t1 where
    t1: "chars t1" "concat t1 = erase_all (concat (y # zs)) ''__''"
    by blast
  show ?case
  proof (cases "x = ''_''")
    case False
    have "concat (x # t1) = erase_all (concat (x # y # zs)) ''__''"
      using erase_underscores_other [OF x False, of "concat (y # zs)"] t1(2) by simp
    moreover have "chars (x # t1)"
      using x t1(1) by (simp add: chars_def)
    ultimately show ?thesis by blast
  next
    case True
    show ?thesis
    proof (cases "y = ''_''")
      case yu: True
      have "concat t0 = erase_all (concat (x # y # zs)) ''__''"
        using True yu t0(2) by simp
      then show ?thesis using t0(1) by blast
    next
      case yn: False
      have yne: "y \<noteq> []"
        using y by (cases y) (simp_all add: is_char_def)
      then have "hd y \<in> set y" by simp
      then have "hd y \<noteq> CHR ''_''"
        using is_char_not_underscore [OF y yn] by blast
      with yne have "\<not> prefix ''__'' (CHR ''_'' # concat (y # zs))"
        by (cases y) auto
      then have "concat (x # t1) = erase_all (concat (x # y # zs)) ''__''"
        using True t1(2) by simp
      moreover have "chars (x # t1)"
        using x t1(1) by (simp add: chars_def)
      ultimately show ?thesis by blast
    qed
  qed
qed

lemma char_seq_RemoveTwoConsecutiveUnderscores:
  "char_seq s \<Longrightarrow> char_seq (RemoveTwoConsecutiveUnderscores s)"
  unfolding char_seq_def RemoveTwoConsecutiveUnderscores_def
  using erase_underscores_chars by blast

lemma RemoveParameterMarkers_chars:
  assumes "chars ts"
  shows "RemoveParameterMarkers (concat ts) = concat (filter (\<lambda>t. t \<notin> markers) ts)"
proof -
  have m: "is_char ldelim_top" "is_char rdelim_top" "is_char ldelim_opt" "is_char rdelim_opt"
    by (simp_all add: is_char_markers markers_def)
  have "RemoveParameterMarkers (concat ts) =
          concat (filter (\<lambda>t. t \<noteq> rdelim_opt) (filter (\<lambda>t. t \<noteq> ldelim_opt)
            (filter (\<lambda>t. t \<noteq> rdelim_top) (filter (\<lambda>t. t \<noteq> ldelim_top) ts))))"
    unfolding RemoveParameterMarkers_def Let_def
    by (simp only: erase_all_chars m assms chars_filter)
  also have "\<dots> = concat (filter (\<lambda>t. t \<notin> markers) ts)"
    by (simp add: markers_def conj_commute conj_left_commute)
  finally show ?thesis .
qed

lemma RemoveParameterMarkers_char_seq:
  assumes "char_seq s" and "m \<in> markers"
  shows "\<not> sublist m (RemoveParameterMarkers s)"
    and "RemoveParameterMarkers (RemoveParameterMarkers s) = RemoveParameterMarkers s"
    and "char_seq (RemoveParameterMarkers s)"
proof -
  from assms(1) obtain ts where ts: "chars ts" "concat ts = s"
    unfolding char_seq_def by blast
  let ?ts = "filter (\<lambda>t. t \<notin> markers) ts"
  have r: "RemoveParameterMarkers s = concat ?ts"
    using RemoveParameterMarkers_chars [OF ts(1)] ts(2) by simp
  have c: "chars ?ts" using ts(1) by (rule chars_filter)
  show "\<not> sublist m (RemoveParameterMarkers s)"
    unfolding r
    by (rule no_sublist_chars) (use assms(2) c is_char_markers in auto)
  show "RemoveParameterMarkers (RemoveParameterMarkers s) = RemoveParameterMarkers s"
    unfolding r RemoveParameterMarkers_chars [OF c] by simp
  show "char_seq (RemoveParameterMarkers s)"
    unfolding r char_seq_def using c by blast
qed

subsection \<open>The accumulators are sequences of characters\<close>

lemma leaves_texts:
  shows "set (map chunk_text (leaves_of n)) \<subseteq> set (texts_of n)"
    and "set (map chunk_text (leaves_of_chunk c)) \<subseteq> set (texts_of_chunk c)"
proof (induction n and c rule: leaves_of_leaves_of_chunk.induct)
  case 1
  show ?case by simp
next
  case (2 cs b)
  show ?case
  proof
    fix x
    assume "x \<in> set (map chunk_text (leaves_of (CompletionString cs b)))"
    then obtain c d where c: "c \<in> set cs" and d: "d \<in> set (leaves_of_chunk c)"
      and x: "x = chunk_text d"
      by auto
    from d x have "x \<in> set (map chunk_text (leaves_of_chunk c))"
      by simp
    with "2.IH" [OF c] have "x \<in> set (texts_of_chunk c)"
      by blast
    then show "x \<in> set (texts_of (CompletionString cs b))"
      using c by auto
  qed
next
  case (3 k t n)
  then show ?case by auto
qed

lemma char_seq_RenderChunk:
  assumes "char_seq (chunk_text d)" and "char_seq od" and "char_seq cd"
  shows "char_seq (RenderChunk d od cd)"
  using assms by (cases d) (simp add: char_seq_append)

lemma char_seq_rendered:
  assumes "\<forall>t\<in>set (texts_of_chunk c). utf8_wf t"
  shows "char_seq (rendered c)"
proof -
  obtain k t n where c: "c = Chunk k t n" by (cases c)
  have m: "char_seq ldelim_top" "char_seq rdelim_top" "char_seq ldelim_opt"
    "char_seq rdelim_opt"
    by (simp_all add: char_seq_markers markers_def)
  show ?thesis
  proof (cases "k = CXCompletionChunk_Optional")
    case True
    have "char_seq (RenderChunk d ldelim_opt rdelim_opt)" if "d \<in> set (leaves_of n)" for d
    proof -
      have "chunk_text d \<in> set (texts_of n)"
        using that leaves_texts(1) [of n] by auto
      then have "utf8_wf (chunk_text d)"
        using assms c by simp
      then show ?thesis
        by (simp add: char_seq_RenderChunk utf8_wf_char_seq m)
    qed
    then show ?thesis
      using True c by (simp add: rendered_def char_seq_concat)
  next
    case False
    have "utf8_wf t" using assms c by simp
    then show ?thesis
      using False c by (simp add: rendered_def char_seq_append utf8_wf_char_seq m)
  qed
qed

lemma chunk_step_char_seq:
  assumes "char_seq es" and "\<forall>t\<in>set (texts_of_chunk c). utf8_wf t"
    and "char_seq (call_string (fst s))"
    and "char_seq (everything_except_return_type (fst s))"
  shows "char_seq (call_string (fst (chunk_step es c s))) \<and>
         char_seq (everything_except_return_type (fst (chunk_step es c s)))"
proof -
  obtain this slp sfp where s: "s = (this, slp, sfp)" by (cases s)
  note r = char_seq_rendered [OF assms(2)]
  show ?thesis
    using assms(1,3,4) r unfolding s
    by (cases c rule: chunk_step_cases)
       (simp_all add: chunk_step_display chunk_step_result_type chunk_step_ignored
          char_seq_append char_seq_Nil)
qed

lemma fold_chunk_step_char_seq:
  assumes "char_seq es" and "\<forall>t\<in>set (concat (map texts_of_chunk cs)). utf8_wf t"
    and "char_seq (call_string (fst s))"
    and "char_seq (everything_except_return_type (fst s))"
  shows "char_seq (call_string (fst (fold (chunk_step es) cs s))) \<and>
         char_seq (everything_except_return_type (fst (fold (chunk_step es) cs s)))"
  using assms(2-)
proof (induction cs arbitrary: s)
  case Nil
  then show ?case by simp
next
  case (Cons c cs)
  have "char_seq (call_string (fst (chunk_step es c s))) \<and>
        char_seq (everything_except_return_type (fst (chunk_step es c s)))"
    using Cons.prems by (intro chunk_step_char_seq assms(1)) simp_all
  then show ?case
    using Cons.IH [of "chunk_step es c s"] Cons.prems(1) by simp
qed

lemma scanned_char_seq:
  assumes "utf8_wf es" and "list_all utf8_wf (texts_of (CompletionString cs b))"
  shows "char_seq (call_string (scanned es ind cs))"
    and "char_seq (everything_except_return_type (scanned es ind cs))"
proof -
  have "char_seq (call_string (scanned es ind cs)) \<and>
        char_seq (everything_except_return_type (scanned es ind cs))"
    unfolding scanned_def
    using assms
    by (intro fold_chunk_step_char_seq)
       (simp_all add: utf8_wf_char_seq list_all_iff CompletionData_default_def char_seq_Nil)
  then show "char_seq (call_string (scanned es ind cs))"
    and "char_seq (everything_except_return_type (scanned es ind cs))"
    by simp_all
qed

subsection \<open>The regular expression deletes bytes of ASCII only\<close>









subsection \<open>Erasing keeps what it does not touch\<close>









subsection \<open>An Optional chunk with no completion string\<close>

lemma fold_chunk_step_state:
  "fold (chunk_step es) cs (CompletionData_default ind, False, False) =
     (scanned es ind cs, flags_after es ind cs)"
  by (simp add: scanned_def flags_after_def)

lemma chunk_step_missing_optional_id:
  assumes "\<not> (slp \<and> \<not> sfp)"
  shows "chunk_step es (Chunk CXCompletionChunk_Optional t NULL) (this, slp, sfp) =
           (this, slp, sfp)"
  using assms
  by (auto simp: chunk_step_display IsMainCompletionTextInfo_def rendered_missing_optional
        spaced_def)

lemma chunk_step_missing_optional_first:
  "chunk_step es (Chunk CXCompletionChunk_Optional t NULL) (this, True, False) =
     (AppendExtraSpaceIfNeeded es this, True, True)"
  by (simp add: chunk_step_display IsMainCompletionTextInfo_def rendered_missing_optional
        spaced_def AppendExtraSpaceIfNeeded_def)

lemma scanned_remove_missing_optional_state:
  assumes "flags_after es ind pre \<noteq> (True, False)"
  shows "scanned es ind (pre @ Chunk CXCompletionChunk_Optional t NULL # post) =
         scanned es ind (pre @ post)"
proof -
  obtain slp sfp where f: "flags_after es ind pre = (slp, sfp)"
    by (cases "flags_after es ind pre")
  have "\<not> (slp \<and> \<not> sfp)"
    using assms f by auto
  then have "chunk_step es (Chunk CXCompletionChunk_Optional t NULL)
               (scanned es ind pre, slp, sfp) = (scanned es ind pre, slp, sfp)"
    by (rule chunk_step_missing_optional_id)
  then show ?thesis
    unfolding scanned_def [of es ind "pre @ _"]
    by (simp add: fold_chunk_step_state f)
qed

lemma leaves_of_without_missing_optional:
  "without_missing_optional n n' \<Longrightarrow> leaves_of n = leaves_of n'"
  by (induction rule: without_missing_optional.induct) simp_all

lemma without_missing_optional_here:
  "without_missing_optional
     (CompletionString (pre @ Chunk CXCompletionChunk_Optional t NULL # post) b)
     (CompletionString (pre @ post) b)"
  by (induction pre) (auto intro: without_missing_optional.intros)

lemma without_missing_optional_below:
  "without_missing_optional n n' \<Longrightarrow>
   without_missing_optional
     (CompletionString (pre @ Chunk CXCompletionChunk_Optional t n # post) b)
     (CompletionString (pre @ Chunk CXCompletionChunk_Optional t n' # post) b)"
  by (induction pre) (auto intro: without_missing_optional.intros)

lemma chunk_step_without_missing_optional:
  assumes "without_missing_optional n n'"
  shows "chunk_step es (Chunk CXCompletionChunk_Optional t n) s =
         chunk_step es (Chunk CXCompletionChunk_Optional t n') s"
  by (cases s)
     (simp add: chunk_step_display IsMainCompletionTextInfo_def rendered_def
        leaves_of_without_missing_optional [OF assms])

subsection \<open>The regular expression, run by run\<close>












lemma runs_other:
  "\<not> isword c \<Longrightarrow> \<not> isspace c \<Longrightarrow> runs (c # cs) = [c] # runs cs"
  by simp


lemma is_qualifier_not_space:
  "is_qualifier w \<Longrightarrow> \<not> list_all isspace w"
  by (auto simp: is_qualifier_def isspace_def)
















section \<open>The claims\<close>

text \<open>
  Claim C1, as amended. For a null completion string the constructor returns at once:
  all seven strings of the record are empty (nothing is stated of \<^verbatim>\<open>kind_\<close>, which
  this path does not assign). For a
  completion string with no chunks the inserted text, the main text, the return type
  and the key text are empty, \<^verbatim>\<open>brief_\<close> and \<^verbatim>\<open>doc_string_\<close> are the brief comment of
  the engine, the detailed information is the brief comment and a newline (when the
  comment is not empty) followed by a space and a newline, and the category is the one
  that \<^verbatim>\<open>CursorKindToCompletionKind\<close> gives for the cursor kind.
\<close>

theorem C1_null_and_empty:
  "TextToInsertInBuffer (CompletionData_of es ind \<lparr> CursorKind = ck, CompletionString_of = NULL \<rparr>) = [] \<and>
   MainCompletionText (CompletionData_of es ind \<lparr> CursorKind = ck, CompletionString_of = NULL \<rparr>) = [] \<and>
   ExtraMenuInfo (CompletionData_of es ind \<lparr> CursorKind = ck, CompletionString_of = NULL \<rparr>) = [] \<and>
   key_string (CompletionData_of es ind \<lparr> CursorKind = ck, CompletionString_of = NULL \<rparr>) = [] \<and>
   Brief (CompletionData_of es ind \<lparr> CursorKind = ck, CompletionString_of = NULL \<rparr>) = [] \<and>
   DetailedInfoForPreviewWindow
     (CompletionData_of es ind \<lparr> CursorKind = ck, CompletionString_of = NULL \<rparr>) = [] \<and>
   DocString (CompletionData_of es ind \<lparr> CursorKind = ck, CompletionString_of = NULL \<rparr>) = [] \<and>
   CompletionData_of es ind \<lparr> CursorKind = ck, CompletionString_of = CompletionString [] b \<rparr> =
     \<lparr> completion_kind = CursorKindToCompletionKind ck,
       everything_except_return_type = [],
       doc_string = b,
       call_string = [],
       key_string = [],
       brief = b,
       detailed_info = (if b \<noteq> [] then b @ [CHR 0x0A] else []) @ [CHR 0x20, CHR 0x0A],
       return_type = [] \<rparr>"
  by (simp add: CompletionData_of_NULL CompletionData_of_scanned scanned_def
        CompletionData_default_def RemoveParameterMarkers_def
        RemoveTwoConsecutiveUnderscores_def regex_replace_Nil
        TextToInsertInBuffer_def MainCompletionText_def ExtraMenuInfo_def Brief_def
        DetailedInfoForPreviewWindow_def DocString_def)

text \<open>
  Counterexample to C1 as the specification states it: for the empty chunk sequence of a
  function declaration with no brief comment, the detailed information is a space and a
  newline, not the empty string, and the category is \<open>FUNCTION\<close>, not \<open>UNKNOWN\<close>.
\<close>

theorem C1_counterexample:
  "DetailedInfoForPreviewWindow (CompletionData_of extra_space_initial UNKNOWN
      \<lparr> CursorKind = CXCursor_FunctionDecl, CompletionString_of = CompletionString [] [] \<rparr>)
     = [CHR 0x20, CHR 0x0A] \<and>
   completion_kind (CompletionData_of extra_space_initial UNKNOWN
      \<lparr> CursorKind = CXCursor_FunctionDecl, CompletionString_of = CompletionString [] [] \<rparr>)
     = FUNCTION \<and>
   DetailedInfoForPreviewWindow (CompletionData_of extra_space_initial UNKNOWN
      \<lparr> CursorKind = CXCursor_FunctionDecl, CompletionString_of = CompletionString [] [] \<rparr>)
     \<noteq> [] \<and>
   completion_kind (CompletionData_of extra_space_initial UNKNOWN
      \<lparr> CursorKind = CXCursor_FunctionDecl, CompletionString_of = CompletionString [] [] \<rparr>)
     \<noteq> UNKNOWN"
  by (simp add: DetailedInfoForPreviewWindow_def CompletionData_of_scanned scanned_def
        CompletionData_default_def RemoveParameterMarkers_def
        RemoveTwoConsecutiveUnderscores_def)

text \<open>
  Claim C2, as amended. A chunk of kind Informative at the top level of the sequence adds
  its text to \<^verbatim>\<open>everything_except_return_type_\<close> and changes nothing else, neither
  \<^verbatim>\<open>call_string_\<close> nor the two flags; so the inserted text and the key text of a
  sequence are those of the sequence without its top-level Informative chunks. An
  Optional chunk adds its whole rendering, the texts of all the chunks below it (those of
  kind Informative too), to \<^verbatim>\<open>call_string_\<close> and to \<^verbatim>\<open>everything_except_return_type_\<close>
  alike.
\<close>

theorem C2_informative_top_level:
  "ExtractDataFromChunk es
       (CompletionString (pre @ Chunk CXCompletionChunk_Informative t n # post) b) (length pre)
       (this, slp, sfp) =
     (this\<lparr> everything_except_return_type := everything_except_return_type this @ t \<rparr>,
      slp, sfp) \<and>
   TextToInsertInBuffer (CompletionData_of es ind
       \<lparr> CursorKind = ck, CompletionString_of = CompletionString cs b \<rparr>) =
     TextToInsertInBuffer (CompletionData_of es ind
       \<lparr> CursorKind = ck, CompletionString_of = CompletionString
           (filter (\<lambda>c. chunk_kind c \<noteq> CXCompletionChunk_Informative) cs) b \<rparr>) \<and>
   key_string (CompletionData_of es ind
       \<lparr> CursorKind = ck, CompletionString_of = CompletionString cs b \<rparr>) =
     key_string (CompletionData_of es ind
       \<lparr> CursorKind = ck, CompletionString_of = CompletionString
           (filter (\<lambda>c. chunk_kind c \<noteq> CXCompletionChunk_Informative) cs) b \<rparr>) \<and>
   ExtractDataFromChunk es
       (CompletionString (pre @ Chunk CXCompletionChunk_Optional t n # post) b) (length pre)
       (this, slp, sfp) =
     (this\<lparr> call_string := call_string this @ (if slp \<and> \<not> sfp then es else []) @
               concat (map (\<lambda>d. RenderChunk d ldelim_opt rdelim_opt) (leaves_of n)),
             everything_except_return_type := everything_except_return_type this @
               (if slp \<and> \<not> sfp then es else []) @
               concat (map (\<lambda>d. RenderChunk d ldelim_opt rdelim_opt) (leaves_of n)) \<rparr>,
      slp, sfp \<or> slp)"
proof (intro conjI)
  show "ExtractDataFromChunk es
       (CompletionString (pre @ Chunk CXCompletionChunk_Informative t n # post) b) (length pre)
       (this, slp, sfp) =
     (this\<lparr> everything_except_return_type := everything_except_return_type this @ t \<rparr>,
      slp, sfp)"
    by (simp add: ExtractDataFromChunk_at chunk_step_display IsMainCompletionTextInfo_def
          spaced_def rendered_def)
next
  show "TextToInsertInBuffer (CompletionData_of es ind
       \<lparr> CursorKind = ck, CompletionString_of = CompletionString cs b \<rparr>) =
     TextToInsertInBuffer (CompletionData_of es ind
       \<lparr> CursorKind = ck, CompletionString_of = CompletionString
           (filter (\<lambda>c. chunk_kind c \<noteq> CXCompletionChunk_Informative) cs) b \<rparr>)"
    using scanned_filter_informative [of es ind cs]
    by (simp add: TextToInsertInBuffer_def CompletionData_of_scanned)
next
  show "key_string (CompletionData_of es ind
       \<lparr> CursorKind = ck, CompletionString_of = CompletionString cs b \<rparr>) =
     key_string (CompletionData_of es ind
       \<lparr> CursorKind = ck, CompletionString_of = CompletionString
           (filter (\<lambda>c. chunk_kind c \<noteq> CXCompletionChunk_Informative) cs) b \<rparr>)"
    using scanned_filter_informative [of es ind cs]
    by (simp add: CompletionData_of_scanned)
next
  show "ExtractDataFromChunk es
       (CompletionString (pre @ Chunk CXCompletionChunk_Optional t n # post) b) (length pre)
       (this, slp, sfp) =
     (this\<lparr> call_string := call_string this @ (if slp \<and> \<not> sfp then es else []) @
               concat (map (\<lambda>d. RenderChunk d ldelim_opt rdelim_opt) (leaves_of n)),
             everything_except_return_type := everything_except_return_type this @
               (if slp \<and> \<not> sfp then es else []) @
               concat (map (\<lambda>d. RenderChunk d ldelim_opt rdelim_opt) (leaves_of n)) \<rparr>,
      slp, sfp \<or> slp)"
    by (simp add: ExtractDataFromChunk_at chunk_step_display IsMainCompletionTextInfo_def
          spaced_def rendered_def)
qed

text \<open>
  Counterexample to C2 as the specification states it: the sequence of one Optional chunk
  whose completion string has the one chunk Informative "x" gives the inserted text "x",
  the text of an Informative chunk.
\<close>

theorem C2_counterexample:
  "TextToInsertInBuffer (CompletionData_of extra_space_initial UNKNOWN
      \<lparr> CursorKind = CXCursor_FunctionDecl,
        CompletionString_of = CompletionString optional_informative [] \<rparr>) = ''x'' \<and>
   leaves_of (CompletionString optional_informative []) =
     [Chunk CXCompletionChunk_Informative ''x'' NULL]"
  by (simp add: TextToInsertInBuffer_def CompletionData_of_scanned scanned_def
        optional_informative_def chunk_step_display
        IsMainCompletionTextInfo_def spaced_def rendered_def extra_space_initial_def
        RemoveTwoConsecutiveUnderscores_def CompletionData_default_def)

text \<open>
  Claim C3, as amended. For every chunk sequence whose chunk texts are well-formed
  sequences of UTF-8 characters, and for both values of the spacing flag (the empty
  string and the space are well formed), the main text of the record contains none of
  the four placeholder markers, and \<^verbatim>\<open>RemoveParameterMarkers\<close> leaves it unchanged.
\<close>

theorem C3_main_text_has_no_markers:
  assumes "utf8_wf extra_space"
    and "list_all utf8_wf (texts_of (CompletionString cs b))"
  shows "\<not> sublist ldelim_top (MainCompletionText (CompletionData_of extra_space ind
            \<lparr> CursorKind = ck, CompletionString_of = CompletionString cs b \<rparr>)) \<and>
         \<not> sublist rdelim_top (MainCompletionText (CompletionData_of extra_space ind
            \<lparr> CursorKind = ck, CompletionString_of = CompletionString cs b \<rparr>)) \<and>
         \<not> sublist ldelim_opt (MainCompletionText (CompletionData_of extra_space ind
            \<lparr> CursorKind = ck, CompletionString_of = CompletionString cs b \<rparr>)) \<and>
         \<not> sublist rdelim_opt (MainCompletionText (CompletionData_of extra_space ind
            \<lparr> CursorKind = ck, CompletionString_of = CompletionString cs b \<rparr>)) \<and>
         RemoveParameterMarkers (MainCompletionText (CompletionData_of extra_space ind
            \<lparr> CursorKind = ck, CompletionString_of = CompletionString cs b \<rparr>)) =
           MainCompletionText (CompletionData_of extra_space ind
            \<lparr> CursorKind = ck, CompletionString_of = CompletionString cs b \<rparr>)"
proof -
  let ?raw = "RemoveTwoConsecutiveUnderscores
                (everything_except_return_type (scanned extra_space ind cs))"
  have main: "MainCompletionText (CompletionData_of extra_space ind
            \<lparr> CursorKind = ck, CompletionString_of = CompletionString cs b \<rparr>) =
          RemoveParameterMarkers ?raw"
    by (simp add: MainCompletionText_def CompletionData_of_scanned)
  have raw: "char_seq ?raw"
    by (rule char_seq_RemoveTwoConsecutiveUnderscores) (rule scanned_char_seq(2) [OF assms])
  show ?thesis
    unfolding main
    using RemoveParameterMarkers_char_seq(1) [OF raw]
      RemoveParameterMarkers_char_seq(2) [OF raw, of ldelim_top]
    by (simp add: markers_def)
qed

text \<open>
  The theorem of C3 with the spacing flag enabled, at a placeholder followed by
  placeholders at depths one and two, whose main text is "abc".
\<close>

theorem C3_witness:
  "utf8_wf (EnableExtraSpace extra_space_initial) \<and>
   list_all utf8_wf (texts_of (CompletionString nested_placeholders [])) \<and>
   \<not> sublist ldelim_top (MainCompletionText
       (CompletionData_of (EnableExtraSpace extra_space_initial) UNKNOWN
          \<lparr> CursorKind = CXCursor_FunctionDecl,
            CompletionString_of = CompletionString nested_placeholders [] \<rparr>)) \<and>
   MainCompletionText
       (CompletionData_of (EnableExtraSpace extra_space_initial) UNKNOWN
          \<lparr> CursorKind = CXCursor_FunctionDecl,
            CompletionString_of = CompletionString nested_placeholders [] \<rparr>) = ''abc''"
proof -
  have 1: "utf8_wf (EnableExtraSpace extra_space_initial)"
    by (simp add: EnableExtraSpace_def utf8_len_def)
  have 2: "list_all utf8_wf (texts_of (CompletionString nested_placeholders []))"
    by (simp add: nested_placeholders_def utf8_len_def)
  have 3: "MainCompletionText
       (CompletionData_of (EnableExtraSpace extra_space_initial) UNKNOWN
          \<lparr> CursorKind = CXCursor_FunctionDecl,
            CompletionString_of = CompletionString nested_placeholders [] \<rparr>) = ''abc''"
    by (simp add: MainCompletionText_def CompletionData_of_scanned scanned_def
        nested_placeholders_def chunk_step_display
        IsMainCompletionTextInfo_def spaced_def rendered_def
        RemoveTwoConsecutiveUnderscores_def RemoveParameterMarkers_def
        CompletionData_default_def
        ldelim_top_def rdelim_top_def ldelim_opt_def rdelim_opt_def)
  show ?thesis
    using C3_main_text_has_no_markers [OF 1 2, of UNKNOWN CXCursor_FunctionDecl] 1 2 3
    by simp
qed

text \<open>
  Counterexample to C3 as the specification states it ("regardless of chunk texts"): a
  TypedText chunk whose text is the six bytes E2 9F E2 9F AB AA. No U+27EA is found in
  it; erasing the one U+27EB (the bytes E2 9F AB) leaves E2 9F AA, which is U+27EA, and
  the two later passes do not look for it. The main text is that marker, and stripping
  the markers again changes it.
\<close>

theorem C3_counterexample:
  "MainCompletionText (CompletionData_of extra_space_initial UNKNOWN
      \<lparr> CursorKind = CXCursor_FunctionDecl,
        CompletionString_of = CompletionString byte_soup [] \<rparr>) = ldelim_top \<and>
   sublist ldelim_top (MainCompletionText (CompletionData_of extra_space_initial UNKNOWN
      \<lparr> CursorKind = CXCursor_FunctionDecl,
        CompletionString_of = CompletionString byte_soup [] \<rparr>)) \<and>
   RemoveParameterMarkers (MainCompletionText (CompletionData_of extra_space_initial UNKNOWN
      \<lparr> CursorKind = CXCursor_FunctionDecl,
        CompletionString_of = CompletionString byte_soup [] \<rparr>)) \<noteq>
     MainCompletionText (CompletionData_of extra_space_initial UNKNOWN
      \<lparr> CursorKind = CXCursor_FunctionDecl,
        CompletionString_of = CompletionString byte_soup [] \<rparr>)"
proof -
  have "MainCompletionText (CompletionData_of extra_space_initial UNKNOWN
      \<lparr> CursorKind = CXCursor_FunctionDecl,
        CompletionString_of = CompletionString byte_soup [] \<rparr>) = ldelim_top"
    by (simp add: MainCompletionText_def CompletionData_of_scanned scanned_def
        byte_soup_def chunk_step_display
        IsMainCompletionTextInfo_def spaced_def rendered_def
        RemoveTwoConsecutiveUnderscores_def RemoveParameterMarkers_def
        CompletionData_default_def extra_space_initial_def
        ldelim_top_def rdelim_top_def ldelim_opt_def rdelim_opt_def)
  moreover have "RemoveParameterMarkers ldelim_top \<noteq> ldelim_top"
    by (simp add: RemoveParameterMarkers_def
        ldelim_top_def rdelim_top_def ldelim_opt_def rdelim_opt_def)
  ultimately show ?thesis by simp
qed

text \<open>
  Claim C4. With the spacing flag disabled (its initial value, or after
  \<^verbatim>\<open>DisableExtraSpace\<close>) the chunks TypedText "foo", LeftParen, TypedText "int x",
  RightParen give the main text "foo(int x)"; after \<^verbatim>\<open>EnableExtraSpace\<close> they give
  "foo( int x )"; and TypedText "foo", LeftParen, RightParen give "foo()" whether the
  flag is enabled or disabled.
\<close>

theorem C4_spacing_examples:
  "MainCompletionText (CompletionData_of extra_space_initial ind
      \<lparr> CursorKind = ck, CompletionString_of = CompletionString foo_int_x b \<rparr>) = ''foo(int x)'' \<and>
   MainCompletionText (CompletionData_of (DisableExtraSpace e) ind
      \<lparr> CursorKind = ck, CompletionString_of = CompletionString foo_int_x b \<rparr>) = ''foo(int x)'' \<and>
   MainCompletionText (CompletionData_of (EnableExtraSpace e) ind
      \<lparr> CursorKind = ck, CompletionString_of = CompletionString foo_int_x b \<rparr>) = ''foo( int x )'' \<and>
   MainCompletionText (CompletionData_of (DisableExtraSpace e) ind
      \<lparr> CursorKind = ck, CompletionString_of = CompletionString foo_no_params b \<rparr>) = ''foo()'' \<and>
   MainCompletionText (CompletionData_of (EnableExtraSpace e) ind
      \<lparr> CursorKind = ck, CompletionString_of = CompletionString foo_no_params b \<rparr>) = ''foo()''"
  by (simp add: MainCompletionText_def CompletionData_of_scanned scanned_def foo_int_x_def
        foo_no_params_def chunk_step_display IsMainCompletionTextInfo_def spaced_def
        rendered_def extra_space_initial_def DisableExtraSpace_def EnableExtraSpace_def
        RemoveParameterMarkers_def RemoveTwoConsecutiveUnderscores_def
        ldelim_top_def rdelim_top_def ldelim_opt_def rdelim_opt_def
        CompletionData_default_def)





text \<open>
  Claim C7, as amended. A top-level chunk whose kind is neither a kind of
  \<^verbatim>\<open>IsMainCompletionTextInfo\<close> nor ResultType (a kind outside the enumeration is one) is
  a no-op: the record is the one built without the chunk. A top-level Optional chunk with
  no completion string renders as the empty string and is treated as an Optional chunk
  with an empty completion string. \<^verbatim>\<open>ExtractDataFromChunk\<close> leaves the object and the two
  flags as they are at such a chunk, whatever the spacing string, in every state but the
  one where a left parenthesis was seen and no parameter yet; in that state the chunk
  counts as the first parameter: the spacing string is appended and the second flag is
  set. So the record is the one built without the chunk when the chunks before it leave
  the flags in another state, and in every case when the spacing flag is disabled. Below
  the top level, in the completion string of an Optional chunk and at any depth, an
  Optional chunk with no completion string is a no-op: the rendering and the record are
  those without it. A chunk of a kind outside the enumeration is not a no-op there: its
  text is rendered, between the renderings of the chunks before it and after it.
\<close>

theorem C7_malformed_chunks:
  "(\<not> IsMainCompletionTextInfo k \<and> k \<noteq> CXCompletionChunk_ResultType \<longrightarrow>
      CompletionData_of es ind \<lparr> CursorKind = ck, CompletionString_of =
          CompletionString (pre @ Chunk k t n # post) b \<rparr> =
        CompletionData_of es ind \<lparr> CursorKind = ck, CompletionString_of =
          CompletionString (pre @ post) b \<rparr>) \<and>
   OptionalChunkToString
       (CompletionString (pre @ Chunk CXCompletionChunk_Optional t NULL # post) b)
       (length pre) = [] \<and>
   CompletionData_of es ind \<lparr> CursorKind = ck, CompletionString_of =
       CompletionString (pre @ Chunk CXCompletionChunk_Optional t NULL # post) b \<rparr> =
     CompletionData_of es ind \<lparr> CursorKind = ck, CompletionString_of =
       CompletionString
         (pre @ Chunk CXCompletionChunk_Optional t (CompletionString [] []) # post) b \<rparr> \<and>
   (\<not> (slp \<and> \<not> sfp) \<longrightarrow>
      ExtractDataFromChunk es
          (CompletionString (pre @ Chunk CXCompletionChunk_Optional t NULL # post) b)
          (length pre) (this, slp, sfp) = (this, slp, sfp)) \<and>
   ExtractDataFromChunk es
       (CompletionString (pre @ Chunk CXCompletionChunk_Optional t NULL # post) b)
       (length pre) (this, True, False) =
     (AppendExtraSpaceIfNeeded es this, True, True) \<and>
   (flags_after es ind pre \<noteq> (True, False) \<longrightarrow>
      CompletionData_of es ind \<lparr> CursorKind = ck, CompletionString_of =
          CompletionString (pre @ Chunk CXCompletionChunk_Optional t NULL # post) b \<rparr> =
        CompletionData_of es ind \<lparr> CursorKind = ck, CompletionString_of =
          CompletionString (pre @ post) b \<rparr>) \<and>
   CompletionData_of (DisableExtraSpace e) ind \<lparr> CursorKind = ck, CompletionString_of =
       CompletionString (pre @ Chunk CXCompletionChunk_Optional t NULL # post) b \<rparr> =
     CompletionData_of (DisableExtraSpace e) ind \<lparr> CursorKind = ck, CompletionString_of =
       CompletionString (pre @ post) b \<rparr> \<and>
   (without_missing_optional m m' \<longrightarrow>
      OptionalChunkToString
          (CompletionString (pre @ Chunk CXCompletionChunk_Optional t m # post) b)
          (length pre) =
        OptionalChunkToString
          (CompletionString (pre @ Chunk CXCompletionChunk_Optional t m' # post) b)
          (length pre) \<and>
      CompletionData_of es ind \<lparr> CursorKind = ck, CompletionString_of =
          CompletionString (pre @ Chunk CXCompletionChunk_Optional t m # post) b \<rparr> =
        CompletionData_of es ind \<lparr> CursorKind = ck, CompletionString_of =
          CompletionString (pre @ Chunk CXCompletionChunk_Optional t m' # post) b \<rparr>) \<and>
   OptionalChunkToString
       (CompletionString
          (pre @ Chunk CXCompletionChunk_Optional t
             (CompletionString
                (npre @ Chunk (CXCompletionChunk_OutOfRange i) t' n # npost) nb) # post) b)
       (length pre) =
     OptionalChunkToString
       (CompletionString
          (pre @ Chunk CXCompletionChunk_Optional t (CompletionString npre nb) # post) b)
       (length pre) @ t' @
     OptionalChunkToString
       (CompletionString
          (pre @ Chunk CXCompletionChunk_Optional t (CompletionString npost nb) # post) b)
       (length pre)"
proof (intro conjI impI)
  assume "\<not> IsMainCompletionTextInfo k \<and> k \<noteq> CXCompletionChunk_ResultType"
  then show "CompletionData_of es ind \<lparr> CursorKind = ck, CompletionString_of =
             CompletionString (pre @ Chunk k t n # post) b \<rparr> =
           CompletionData_of es ind \<lparr> CursorKind = ck, CompletionString_of =
             CompletionString (pre @ post) b \<rparr>"
    by (simp add: CompletionData_of_scanned scanned_remove_ignored)
next
  show "OptionalChunkToString
             (CompletionString (pre @ Chunk CXCompletionChunk_Optional t NULL # post) b)
             (length pre) = []"
    by (simp add: OptionalChunkToString_leaves clang_getCompletionChunkCompletionString_def)
next
  have "scanned es ind (pre @ Chunk CXCompletionChunk_Optional t NULL # post) =
        scanned es ind (pre @ Chunk CXCompletionChunk_Optional t (CompletionString [] []) # post)"
    by (simp add: scanned_def chunk_step_missing_optional [of es t _ t "[]"])
  then show "CompletionData_of es ind \<lparr> CursorKind = ck, CompletionString_of =
             CompletionString (pre @ Chunk CXCompletionChunk_Optional t NULL # post) b \<rparr> =
           CompletionData_of es ind \<lparr> CursorKind = ck, CompletionString_of =
             CompletionString
               (pre @ Chunk CXCompletionChunk_Optional t (CompletionString [] []) # post) b \<rparr>"
    by (simp add: CompletionData_of_scanned)
next
  assume "\<not> (slp \<and> \<not> sfp)"
  then have "chunk_step es (Chunk CXCompletionChunk_Optional t NULL) (this, slp, sfp) =
               (this, slp, sfp)"
    by (rule chunk_step_missing_optional_id)
  then show "ExtractDataFromChunk es
          (CompletionString (pre @ Chunk CXCompletionChunk_Optional t NULL # post) b)
          (length pre) (this, slp, sfp) = (this, slp, sfp)"
    by (simp only: ExtractDataFromChunk_at)
next
  show "ExtractDataFromChunk es
       (CompletionString (pre @ Chunk CXCompletionChunk_Optional t NULL # post) b)
       (length pre) (this, True, False) =
     (AppendExtraSpaceIfNeeded es this, True, True)"
    by (simp only: ExtractDataFromChunk_at chunk_step_missing_optional_first)
next
  assume "flags_after es ind pre \<noteq> (True, False)"
  then show "CompletionData_of es ind \<lparr> CursorKind = ck, CompletionString_of =
          CompletionString (pre @ Chunk CXCompletionChunk_Optional t NULL # post) b \<rparr> =
        CompletionData_of es ind \<lparr> CursorKind = ck, CompletionString_of =
          CompletionString (pre @ post) b \<rparr>"
    by (simp add: CompletionData_of_scanned scanned_remove_missing_optional_state)
next
  show "CompletionData_of (DisableExtraSpace e) ind \<lparr> CursorKind = ck, CompletionString_of =
             CompletionString (pre @ Chunk CXCompletionChunk_Optional t NULL # post) b \<rparr> =
           CompletionData_of (DisableExtraSpace e) ind \<lparr> CursorKind = ck, CompletionString_of =
             CompletionString (pre @ post) b \<rparr>"
    by (simp add: CompletionData_of_scanned DisableExtraSpace_def
          scanned_remove_missing_optional)
next
  assume "without_missing_optional m m'"
  then show "OptionalChunkToString
          (CompletionString (pre @ Chunk CXCompletionChunk_Optional t m # post) b)
          (length pre) =
        OptionalChunkToString
          (CompletionString (pre @ Chunk CXCompletionChunk_Optional t m' # post) b)
          (length pre)"
    by (simp add: OptionalChunkToString_leaves clang_getCompletionChunkCompletionString_def
          leaves_of_without_missing_optional)
next
  assume r: "without_missing_optional m m'"
  have "scanned es ind (pre @ Chunk CXCompletionChunk_Optional t m # post) =
        scanned es ind (pre @ Chunk CXCompletionChunk_Optional t m' # post)"
    by (simp add: scanned_def chunk_step_without_missing_optional [OF r])
  then show "CompletionData_of es ind \<lparr> CursorKind = ck, CompletionString_of =
          CompletionString (pre @ Chunk CXCompletionChunk_Optional t m # post) b \<rparr> =
        CompletionData_of es ind \<lparr> CursorKind = ck, CompletionString_of =
          CompletionString (pre @ Chunk CXCompletionChunk_Optional t m' # post) b \<rparr>"
    by (simp add: CompletionData_of_scanned)
next
  show "OptionalChunkToString
       (CompletionString
          (pre @ Chunk CXCompletionChunk_Optional t
             (CompletionString
                (npre @ Chunk (CXCompletionChunk_OutOfRange i) t' n # npost) nb) # post) b)
       (length pre) =
     OptionalChunkToString
       (CompletionString
          (pre @ Chunk CXCompletionChunk_Optional t (CompletionString npre nb) # post) b)
       (length pre) @ t' @
     OptionalChunkToString
       (CompletionString
          (pre @ Chunk CXCompletionChunk_Optional t (CompletionString npost nb) # post) b)
       (length pre)"
    by (simp add: OptionalChunkToString_leaves clang_getCompletionChunkCompletionString_def)
qed

text \<open>
  The theorem of C7 with the spacing flag enabled: at a chunk of kind 99 put between the
  parenthesis and the parameter of "foo(int x)"; at an Optional chunk with no completion
  string put after the parameter, where both flags are set; and at an Optional chunk put
  there whose completion string holds the text "a" and an Optional chunk with no
  completion string.
\<close>

theorem C7_witness:
  "\<not> IsMainCompletionTextInfo (CXCompletionChunk_OutOfRange 99) \<and>
   CXCompletionChunk_OutOfRange 99 \<noteq> CXCompletionChunk_ResultType \<and>
   CompletionData_of (EnableExtraSpace extra_space_initial) UNKNOWN
     \<lparr> CursorKind = CXCursor_FunctionDecl, CompletionString_of = CompletionString
         (take 2 foo_int_x @ Chunk (CXCompletionChunk_OutOfRange 99) ''?'' NULL #
          drop 2 foo_int_x) [] \<rparr> =
   CompletionData_of (EnableExtraSpace extra_space_initial) UNKNOWN
     \<lparr> CursorKind = CXCursor_FunctionDecl, CompletionString_of =
         CompletionString (take 2 foo_int_x @ drop 2 foo_int_x) [] \<rparr> \<and>
   \<not> (True \<and> \<not> True) \<and>
   ExtractDataFromChunk (EnableExtraSpace extra_space_initial)
     (CompletionString
        (take 3 foo_int_x @ Chunk CXCompletionChunk_Optional [] NULL # drop 3 foo_int_x) [])
     (length (take 3 foo_int_x)) (CompletionData_default UNKNOWN, True, True) =
   (CompletionData_default UNKNOWN, True, True) \<and>
   flags_after (EnableExtraSpace extra_space_initial) UNKNOWN (take 3 foo_int_x) \<noteq>
     (True, False) \<and>
   CompletionData_of (EnableExtraSpace extra_space_initial) UNKNOWN
     \<lparr> CursorKind = CXCursor_FunctionDecl, CompletionString_of = CompletionString
         (take 3 foo_int_x @ Chunk CXCompletionChunk_Optional [] NULL #
          drop 3 foo_int_x) [] \<rparr> =
   CompletionData_of (EnableExtraSpace extra_space_initial) UNKNOWN
     \<lparr> CursorKind = CXCursor_FunctionDecl, CompletionString_of =
         CompletionString (take 3 foo_int_x @ drop 3 foo_int_x) [] \<rparr> \<and>
   without_missing_optional
     (CompletionString
        [Chunk CXCompletionChunk_Text ''a'' NULL, Chunk CXCompletionChunk_Optional [] NULL] [])
     (CompletionString [Chunk CXCompletionChunk_Text ''a'' NULL] []) \<and>
   CompletionData_of (EnableExtraSpace extra_space_initial) UNKNOWN
     \<lparr> CursorKind = CXCursor_FunctionDecl, CompletionString_of = CompletionString
         (take 3 foo_int_x @ Chunk CXCompletionChunk_Optional []
            (CompletionString
               [Chunk CXCompletionChunk_Text ''a'' NULL,
                Chunk CXCompletionChunk_Optional [] NULL] []) #
          drop 3 foo_int_x) [] \<rparr> =
   CompletionData_of (EnableExtraSpace extra_space_initial) UNKNOWN
     \<lparr> CursorKind = CXCursor_FunctionDecl, CompletionString_of = CompletionString
         (take 3 foo_int_x @ Chunk CXCompletionChunk_Optional []
            (CompletionString [Chunk CXCompletionChunk_Text ''a'' NULL] []) #
          drop 3 foo_int_x) [] \<rparr>"
proof -
  let ?E = "EnableExtraSpace extra_space_initial"
  let ?m = "CompletionString
        [Chunk CXCompletionChunk_Text ''a'' NULL, Chunk CXCompletionChunk_Optional [] NULL] []"
  let ?m' = "CompletionString [Chunk CXCompletionChunk_Text ''a'' NULL] []"
  have 1: "\<not> IsMainCompletionTextInfo (CXCompletionChunk_OutOfRange 99)"
    by (simp add: IsMainCompletionTextInfo_def)
  have 2: "CXCompletionChunk_OutOfRange 99 \<noteq> CXCompletionChunk_ResultType"
    by simp
  have 3: "flags_after ?E UNKNOWN (take 3 foo_int_x) \<noteq> (True, False)"
    by (simp add: flags_after_def foo_int_x_def chunk_step_display
          IsMainCompletionTextInfo_def)
  have 4: "without_missing_optional ?m ?m'"
    by (intro without_missing_optional.later without_missing_optional.here)
  have 5: "\<not> (True \<and> \<not> True)"
    by simp
  have a: "CompletionData_of ?E UNKNOWN
     \<lparr> CursorKind = CXCursor_FunctionDecl, CompletionString_of = CompletionString
         (take 2 foo_int_x @ Chunk (CXCompletionChunk_OutOfRange 99) ''?'' NULL #
          drop 2 foo_int_x) [] \<rparr> =
   CompletionData_of ?E UNKNOWN
     \<lparr> CursorKind = CXCursor_FunctionDecl, CompletionString_of =
         CompletionString (take 2 foo_int_x @ drop 2 foo_int_x) [] \<rparr>"
    using C7_malformed_chunks [where k = "CXCompletionChunk_OutOfRange 99" and es = ?E
        and ind = UNKNOWN and ck = CXCursor_FunctionDecl and pre = "take 2 foo_int_x"
        and t = "''?''" and n = NULL and post = "drop 2 foo_int_x" and b = "[]"
        and slp = True and sfp = True and this = "CompletionData_default UNKNOWN"
        and e = "[]" and m = NULL and m' = NULL and i = 0 and npre = "[]" and npost = "[]"
        and nb = "[]" and t' = "[]"] 1 2
    by (elim conjE) (erule mp, intro conjI)
  note inst = C7_malformed_chunks [where k = "CXCompletionChunk_OutOfRange 99" and es = ?E
        and ind = UNKNOWN and ck = CXCursor_FunctionDecl and pre = "take 3 foo_int_x"
        and t = "[]" and n = NULL and post = "drop 3 foo_int_x" and b = "[]"
        and slp = True and sfp = True and this = "CompletionData_default UNKNOWN"
        and e = "[]" and m = ?m and m' = ?m' and i = 0 and npre = "[]" and npost = "[]"
        and nb = "[]" and t' = "[]"]
  have b: "CompletionData_of ?E UNKNOWN
     \<lparr> CursorKind = CXCursor_FunctionDecl, CompletionString_of = CompletionString
         (take 3 foo_int_x @ Chunk CXCompletionChunk_Optional [] NULL #
          drop 3 foo_int_x) [] \<rparr> =
   CompletionData_of ?E UNKNOWN
     \<lparr> CursorKind = CXCursor_FunctionDecl, CompletionString_of =
         CompletionString (take 3 foo_int_x @ drop 3 foo_int_x) [] \<rparr>"
    using inst 3 by blast
  have c: "CompletionData_of ?E UNKNOWN
     \<lparr> CursorKind = CXCursor_FunctionDecl, CompletionString_of = CompletionString
         (take 3 foo_int_x @ Chunk CXCompletionChunk_Optional [] ?m #
          drop 3 foo_int_x) [] \<rparr> =
   CompletionData_of ?E UNKNOWN
     \<lparr> CursorKind = CXCursor_FunctionDecl, CompletionString_of = CompletionString
         (take 3 foo_int_x @ Chunk CXCompletionChunk_Optional [] ?m' #
          drop 3 foo_int_x) [] \<rparr>"
    using inst 4 by blast
  have d: "ExtractDataFromChunk ?E
     (CompletionString
        (take 3 foo_int_x @ Chunk CXCompletionChunk_Optional [] NULL # drop 3 foo_int_x) [])
     (length (take 3 foo_int_x)) (CompletionData_default UNKNOWN, True, True) =
   (CompletionData_default UNKNOWN, True, True)"
    using inst 5 by blast
  show ?thesis
    by (intro conjI 1 2 3 4 5 a b c d)
qed

text \<open>
  Counterexample to C7 as the specification states it. With the spacing flag enabled,
  "foo", "(", an Optional chunk with no completion string, ")" gives the main text
  "foo(  )", and the same sequence without the Optional chunk gives "foo()". A chunk of
  the kind 99 in the completion string of an Optional chunk is rendered: the main text
  is its text "x", and it is empty without the chunk.
\<close>

theorem C7_counterexample:
  "MainCompletionText (CompletionData_of (EnableExtraSpace extra_space_initial) UNKNOWN
      \<lparr> CursorKind = CXCursor_FunctionDecl,
        CompletionString_of = CompletionString foo_missing_optional [] \<rparr>) = ''foo(  )'' \<and>
   MainCompletionText (CompletionData_of (EnableExtraSpace extra_space_initial) UNKNOWN
      \<lparr> CursorKind = CXCursor_FunctionDecl,
        CompletionString_of = CompletionString foo_no_params [] \<rparr>) = ''foo()'' \<and>
   foo_missing_optional =
     take 2 foo_no_params @ Chunk CXCompletionChunk_Optional [] NULL # drop 2 foo_no_params \<and>
   MainCompletionText (CompletionData_of extra_space_initial UNKNOWN
      \<lparr> CursorKind = CXCursor_FunctionDecl,
        CompletionString_of = CompletionString optional_unknown_kind [] \<rparr>) = ''x'' \<and>
   MainCompletionText (CompletionData_of extra_space_initial UNKNOWN
      \<lparr> CursorKind = CXCursor_FunctionDecl,
        CompletionString_of = CompletionString optional_nothing [] \<rparr>) = []"
  by (simp add: MainCompletionText_def CompletionData_of_scanned scanned_def
        foo_missing_optional_def foo_no_params_def optional_unknown_kind_def
        optional_nothing_def chunk_step_display
        IsMainCompletionTextInfo_def spaced_def rendered_def EnableExtraSpace_def
        extra_space_initial_def
        RemoveParameterMarkers_def RemoveTwoConsecutiveUnderscores_def
        ldelim_top_def rdelim_top_def ldelim_opt_def rdelim_opt_def
        CompletionData_default_def)

text \<open>
  Claim C8. Two records compare equal exactly when their category, main text and return
  type are equal, and replacing the brief comment, the documentation string, the
  inserted text, the key text and the detailed information of either record by any
  values does not change the comparison.
\<close>

theorem C8_operator_eq:
  "(operator_eq a b \<longleftrightarrow>
      completion_kind a = completion_kind b \<and>
      MainCompletionText a = MainCompletionText b \<and>
      ExtraMenuInfo a = ExtraMenuInfo b) \<and>
   operator_eq
     (a\<lparr> brief := b1, doc_string := d1, call_string := c1, key_string := k1,
          detailed_info := i1 \<rparr>)
     (b\<lparr> brief := b2, doc_string := d2, call_string := c2, key_string := k2,
          detailed_info := i2 \<rparr>) = operator_eq a b"
  by (simp add: operator_eq_def MainCompletionText_def ExtraMenuInfo_def)

text \<open>
  Claim C9. For every sequence of chunks (of a completion string that is not null): a
  ResultType chunk sets \<^verbatim>\<open>return_type_\<close> to its text and changes nothing else; the return
  type of the record is the text of the last ResultType chunk; the main text and the
  inserted text are those of the sequence without the chunk; the detailed information is
  the brief comment, a newline, the return type, a space, the main text and a newline
  when the brief comment is not empty, and the same without the first two when it is
  empty. ResultType "int" and TypedText "foo" with no brief comment give the return type
  "int" and the detailed information "int foo" and a newline.
\<close>

theorem C9_result_type_and_detailed_info:
  "ExtractDataFromChunk es
       (CompletionString (pre @ Chunk CXCompletionChunk_ResultType t n # post) b) (length pre)
       (this, slp, sfp) =
     (this\<lparr> return_type := t \<rparr>, slp, sfp) \<and>
   ExtraMenuInfo (CompletionData_of es ind \<lparr> CursorKind = ck, CompletionString_of =
       CompletionString (pre @ Chunk CXCompletionChunk_ResultType t n #
         filter (\<lambda>c. chunk_kind c \<noteq> CXCompletionChunk_ResultType) post) b \<rparr>) = t \<and>
   MainCompletionText (CompletionData_of es ind \<lparr> CursorKind = ck, CompletionString_of =
       CompletionString (pre @ Chunk CXCompletionChunk_ResultType t n # post) b \<rparr>) =
     MainCompletionText (CompletionData_of es ind \<lparr> CursorKind = ck, CompletionString_of =
       CompletionString (pre @ post) b \<rparr>) \<and>
   TextToInsertInBuffer (CompletionData_of es ind \<lparr> CursorKind = ck, CompletionString_of =
       CompletionString (pre @ Chunk CXCompletionChunk_ResultType t n # post) b \<rparr>) =
     TextToInsertInBuffer (CompletionData_of es ind \<lparr> CursorKind = ck, CompletionString_of =
       CompletionString (pre @ post) b \<rparr>) \<and>
   Brief (CompletionData_of es ind
       \<lparr> CursorKind = ck, CompletionString_of = CompletionString cs b \<rparr>) = b \<and>
   DetailedInfoForPreviewWindow (CompletionData_of es ind
       \<lparr> CursorKind = ck, CompletionString_of = CompletionString cs b \<rparr>) =
     (if b \<noteq> []
      then b @ [CHR 0x0A] @
           ExtraMenuInfo (CompletionData_of es ind
             \<lparr> CursorKind = ck, CompletionString_of = CompletionString cs b \<rparr>) @ '' '' @
           MainCompletionText (CompletionData_of es ind
             \<lparr> CursorKind = ck, CompletionString_of = CompletionString cs b \<rparr>) @ [CHR 0x0A]
      else ExtraMenuInfo (CompletionData_of es ind
             \<lparr> CursorKind = ck, CompletionString_of = CompletionString cs b \<rparr>) @ '' '' @
           MainCompletionText (CompletionData_of es ind
             \<lparr> CursorKind = ck, CompletionString_of = CompletionString cs b \<rparr>) @ [CHR 0x0A]) \<and>
   ExtraMenuInfo (CompletionData_of es ind
       \<lparr> CursorKind = ck, CompletionString_of = CompletionString int_foo [] \<rparr>) = ''int'' \<and>
   DetailedInfoForPreviewWindow (CompletionData_of es ind
       \<lparr> CursorKind = ck, CompletionString_of = CompletionString int_foo [] \<rparr>) =
     ''int foo'' @ [CHR 0x0A]"
proof (intro conjI)
  show "ExtractDataFromChunk es
       (CompletionString (pre @ Chunk CXCompletionChunk_ResultType t n # post) b) (length pre)
       (this, slp, sfp) = (this\<lparr> return_type := t \<rparr>, slp, sfp)"
    by (simp add: ExtractDataFromChunk_at chunk_step_result_type)
next
  show "ExtraMenuInfo (CompletionData_of es ind \<lparr> CursorKind = ck, CompletionString_of =
       CompletionString (pre @ Chunk CXCompletionChunk_ResultType t n #
         filter (\<lambda>c. chunk_kind c \<noteq> CXCompletionChunk_ResultType) post) b \<rparr>) = t"
    by (simp add: ExtraMenuInfo_def CompletionData_of_scanned scanned_last_result_type)
next
  show "MainCompletionText (CompletionData_of es ind \<lparr> CursorKind = ck, CompletionString_of =
       CompletionString (pre @ Chunk CXCompletionChunk_ResultType t n # post) b \<rparr>) =
     MainCompletionText (CompletionData_of es ind \<lparr> CursorKind = ck, CompletionString_of =
       CompletionString (pre @ post) b \<rparr>)"
    by (simp add: MainCompletionText_def CompletionData_of_scanned scanned_remove_result_type)
next
  show "TextToInsertInBuffer (CompletionData_of es ind \<lparr> CursorKind = ck, CompletionString_of =
       CompletionString (pre @ Chunk CXCompletionChunk_ResultType t n # post) b \<rparr>) =
     TextToInsertInBuffer (CompletionData_of es ind \<lparr> CursorKind = ck, CompletionString_of =
       CompletionString (pre @ post) b \<rparr>)"
    by (simp add: TextToInsertInBuffer_def CompletionData_of_scanned scanned_remove_result_type)
next
  show "Brief (CompletionData_of es ind
       \<lparr> CursorKind = ck, CompletionString_of = CompletionString cs b \<rparr>) = b"
    by (simp add: Brief_def CompletionData_of_scanned)
next
  show "DetailedInfoForPreviewWindow (CompletionData_of es ind
       \<lparr> CursorKind = ck, CompletionString_of = CompletionString cs b \<rparr>) =
     (if b \<noteq> []
      then b @ [CHR 0x0A] @
           ExtraMenuInfo (CompletionData_of es ind
             \<lparr> CursorKind = ck, CompletionString_of = CompletionString cs b \<rparr>) @ '' '' @
           MainCompletionText (CompletionData_of es ind
             \<lparr> CursorKind = ck, CompletionString_of = CompletionString cs b \<rparr>) @ [CHR 0x0A]
      else ExtraMenuInfo (CompletionData_of es ind
             \<lparr> CursorKind = ck, CompletionString_of = CompletionString cs b \<rparr>) @ '' '' @
           MainCompletionText (CompletionData_of es ind
             \<lparr> CursorKind = ck, CompletionString_of = CompletionString cs b \<rparr>) @ [CHR 0x0A])"
    by (simp add: DetailedInfoForPreviewWindow_def ExtraMenuInfo_def MainCompletionText_def
          CompletionData_of_scanned)
next
  show "ExtraMenuInfo (CompletionData_of es ind
       \<lparr> CursorKind = ck, CompletionString_of = CompletionString int_foo [] \<rparr>) = ''int''"
    by (simp add: ExtraMenuInfo_def CompletionData_of_scanned scanned_def int_foo_def
          chunk_step_display chunk_step_result_type IsMainCompletionTextInfo_def)
next
  show "DetailedInfoForPreviewWindow (CompletionData_of es ind
       \<lparr> CursorKind = ck, CompletionString_of = CompletionString int_foo [] \<rparr>) =
     ''int foo'' @ [CHR 0x0A]"
    by (simp add: DetailedInfoForPreviewWindow_def CompletionData_of_scanned scanned_def
          int_foo_def chunk_step_display chunk_step_result_type IsMainCompletionTextInfo_def
          spaced_def rendered_def RemoveTwoConsecutiveUnderscores_def
          RemoveParameterMarkers_def ldelim_top_def rdelim_top_def ldelim_opt_def
          rdelim_opt_def CompletionData_default_def)
qed

text \<open>
  Claim C10. With the spacing flag enabled \<^verbatim>\<open>AppendExtraSpaceIfNeeded\<close> appends one
  space to \<^verbatim>\<open>call_string_\<close> and one to \<^verbatim>\<open>everything_except_return_type_\<close> and changes no
  other member; at a chunk where the flags call for it, \<^verbatim>\<open>ExtractDataFromChunk\<close> appends
  the space and the rendering of the chunk to both; and the inserted text of "foo",
  "(", "int x", ")" is "foo( int x )".
\<close>

theorem C10_extra_space_both_accumulators:
  assumes "j < length cs"
    and "IsMainCompletionTextInfo (chunk_kind (cs ! j))"
    and "spaced (chunk_kind (cs ! j)) slp sfp"
  shows "AppendExtraSpaceIfNeeded (EnableExtraSpace e) this =
           this\<lparr> call_string := call_string this @ '' '',
                  everything_except_return_type :=
                    everything_except_return_type this @ '' '' \<rparr> \<and>
         ExtractDataFromChunk (EnableExtraSpace e) (CompletionString cs b) j (this, slp, sfp) =
           (this\<lparr> call_string := call_string this @ '' '' @ rendered (cs ! j),
                   everything_except_return_type :=
                     everything_except_return_type this @ '' '' @ rendered (cs ! j) \<rparr>,
            slp, True) \<and>
         TextToInsertInBuffer (CompletionData_of (EnableExtraSpace e) ind
            \<lparr> CursorKind = ck, CompletionString_of = CompletionString foo_int_x b' \<rparr>) =
           ''foo( int x )''"
proof (intro conjI)
  show "AppendExtraSpaceIfNeeded (EnableExtraSpace e) this =
           this\<lparr> call_string := call_string this @ '' '',
                  everything_except_return_type :=
                    everything_except_return_type this @ '' '' \<rparr>"
    by (simp add: AppendExtraSpaceIfNeeded_def EnableExtraSpace_def)
next
  obtain k t n where c: "cs ! j = Chunk k t n" by (cases "cs ! j")
  have "k \<noteq> CXCompletionChunk_Informative"
    using assms(3) by (auto simp: spaced_def c)
  moreover have "sfp \<or> k \<noteq> CXCompletionChunk_LeftParen \<and> slp \<and>
      k \<noteq> CXCompletionChunk_RightParen \<and> k \<noteq> CXCompletionChunk_Informative"
    using assms(3) by (auto simp: spaced_def c)
  moreover have "k \<noteq> CXCompletionChunk_LeftParen"
    using assms(3) by (auto simp: spaced_def c)
  ultimately show "ExtractDataFromChunk (EnableExtraSpace e) (CompletionString cs b) j
      (this, slp, sfp) =
           (this\<lparr> call_string := call_string this @ '' '' @ rendered (cs ! j),
                   everything_except_return_type :=
                     everything_except_return_type this @ '' '' @ rendered (cs ! j) \<rparr>,
            slp, True)"
    using assms
    by (simp add: ExtractDataFromChunk_nth c chunk_step_display EnableExtraSpace_def)
next
  show "TextToInsertInBuffer (CompletionData_of (EnableExtraSpace e) ind
            \<lparr> CursorKind = ck, CompletionString_of = CompletionString foo_int_x b' \<rparr>) =
           ''foo( int x )''"
    by (simp add: TextToInsertInBuffer_def CompletionData_of_scanned scanned_def foo_int_x_def
        chunk_step_display IsMainCompletionTextInfo_def spaced_def
        rendered_def EnableExtraSpace_def RemoveTwoConsecutiveUnderscores_def
        ldelim_top_def rdelim_top_def CompletionData_default_def)
qed

text \<open>
  The theorem of C10 at the third chunk of "foo", "(", "int x", ")", after the
  parenthesis.
\<close>

theorem C10_witness:
  "2 < length foo_int_x \<and>
   IsMainCompletionTextInfo (chunk_kind (foo_int_x ! 2)) \<and>
   spaced (chunk_kind (foo_int_x ! 2)) True False \<and>
   ExtractDataFromChunk (EnableExtraSpace extra_space_initial) (CompletionString foo_int_x [])
       2 (CompletionData_default UNKNOWN\<lparr> call_string := ''foo('',
            everything_except_return_type := ''foo('' \<rparr>, True, False) =
     (CompletionData_default UNKNOWN\<lparr> call_string := ''foo( int x'',
            everything_except_return_type := ''foo( int x'' \<rparr>, True, True)"
proof -
  have 1: "2 < length foo_int_x"
    by (simp add: foo_int_x_def)
  have 2: "IsMainCompletionTextInfo (chunk_kind (foo_int_x ! 2))"
    by (simp add: foo_int_x_def IsMainCompletionTextInfo_def)
  have 3: "spaced (chunk_kind (foo_int_x ! 2)) True False"
    by (simp add: foo_int_x_def spaced_def)
  have 4: "rendered (foo_int_x ! 2) = ''int x''"
    by (simp add: foo_int_x_def rendered_def)
  show ?thesis
    using C10_extra_space_both_accumulators [OF 1 2 3, of extra_space_initial
        "CompletionData_default UNKNOWN\<lparr> call_string := ''foo('',
            everything_except_return_type := ''foo('' \<rparr>" "[]" UNKNOWN CXCursor_FunctionDecl "[]"]
      1 2 3
    by (simp add: 4 CompletionData_default_def)
qed


end
